theory Spec2Isabelle
  imports Complex_Main
begin

text \<open>
  A model of \<open>static/responsive-utils.js\<close>: the viewport state of
  \<open>ResponsiveManager\<close> and its name, the adjustment pass over the page, the
  subscribers and their notification, the platform's event handlers, the two startup
  handlers, and \<open>debounce\<close>. The page and the platform are data; every method is a
  function on the state that it reads and writes.
\<close>

section \<open>Exceptions and statements\<close>

text \<open>
  A JavaScript statement either completes normally or throws; the changes it made to
  the state before throwing stay. A statement is therefore a function from the state
  to a completion and the state it leaves behind.
\<close>

datatype exn = TypeError string | Thrown string

datatype completion = Normal | Throw exn

type_synonym 's stmt = "'s \<Rightarrow> completion \<times> 's"

definition skip :: "'s stmt" where
  "skip s = (Normal, s)"

definition throw :: "exn \<Rightarrow> 's stmt" where
  "throw e s = (Throw e, s)"

definition modify :: "('s \<Rightarrow> 's) \<Rightarrow> 's stmt" where
  "modify f s = (Normal, f s)"

text \<open>A block runs its statements in order; the first one that throws ends it.\<close>

fun block :: "'s stmt list \<Rightarrow> 's stmt" where
  "block [] s = (Normal, s)"
| "block (c # cs) s =
     (case c s of
        (Normal, s') \<Rightarrow> block cs s'
      | (Throw e, s') \<Rightarrow> (Throw e, s'))"

definition try_catch :: "'s stmt \<Rightarrow> (exn \<Rightarrow> 's stmt) \<Rightarrow> 's stmt" where
  "try_catch body handler s =
     (case body s of
        (Normal, s') \<Rightarrow> (Normal, s')
      | (Throw e, s') \<Rightarrow> handler e s')"

text \<open>\<open>xs.forEach(body)\<close>: the body runs on each element in order; an exception
  leaving the body ends the iteration and leaves \<open>forEach\<close>.\<close>

definition forEach :: "'a list \<Rightarrow> ('a \<Rightarrow> 's stmt) \<Rightarrow> 's stmt" where
  "forEach xs body = block (map body xs)"

section \<open>The page: elements, console\<close>

text \<open>
  An element carries what this file reads and writes: its tag, attributes, class list
  and inline style, and its parent. A page has its document element and, in document
  order, the elements below it. A node reference is an index into \<open>nodes\<close>: 0 is the
  document element, \<open>i + 1\<close> the \<open>i\<close>-th element below it; \<open>null\<close> is \<open>None\<close>.
  The parent of an element is a reference to an earlier node; an element with no such
  parent is a child of the document element.
\<close>

record element =
  tag :: string
  attrs :: "string \<rightharpoonup> string"
  classList :: "string list"
  style :: "string \<rightharpoonup> string"
  parent :: "nat option"

text \<open>A console entry keeps the message (the first argument of the call, without format
  directives) and, for an error, the exception.\<close>

datatype console_entry =
    ConsoleLog string
  | ConsoleWarn string
  | ConsoleError string exn

record page =
  documentElement :: element
  elements :: "element list"
  console :: "console_entry list"

definition nodes :: "page \<Rightarrow> element list" where
  "nodes p = documentElement p # elements p"

definition put_nodes :: "element list \<Rightarrow> page \<Rightarrow> page" where
  "put_nodes ns p =
     (case ns of [] \<Rightarrow> p | r # es \<Rightarrow> p\<lparr>documentElement := r, elements := es\<rparr>)"

definition console_log :: "string \<Rightarrow> page stmt" where
  "console_log msg = modify (\<lambda>p. p\<lparr>console := console p @ [ConsoleLog msg]\<rparr>)"

definition console_warn :: "string \<Rightarrow> page stmt" where
  "console_warn msg = modify (\<lambda>p. p\<lparr>console := console p @ [ConsoleWarn msg]\<rparr>)"

definition console_error :: "string \<Rightarrow> exn \<Rightarrow> page stmt" where
  "console_error msg e = modify (\<lambda>p. p\<lparr>console := console p @ [ConsoleError msg e]\<rparr>)"

subsection \<open>Class lists and attributes\<close>

definition classList_add :: "string \<Rightarrow> element \<Rightarrow> element" where
  "classList_add c e =
     (if c \<in> set (classList e) then e else e\<lparr>classList := classList e @ [c]\<rparr>)"

definition classList_remove :: "string list \<Rightarrow> element \<Rightarrow> element" where
  "classList_remove cs e = e\<lparr>classList := filter (\<lambda>c. c \<notin> set cs) (classList e)\<rparr>"

definition setAttribute :: "string \<Rightarrow> string \<Rightarrow> element \<Rightarrow> element" where
  "setAttribute k v e = e\<lparr>attrs := (attrs e)(k \<mapsto> v)\<rparr>"

definition removeAttribute :: "string \<Rightarrow> element \<Rightarrow> element" where
  "removeAttribute k e = e\<lparr>attrs := (attrs e)(k := None)\<rparr>"

definition setStyle :: "string \<Rightarrow> string \<Rightarrow> element \<Rightarrow> element" where
  "setStyle k v e = e\<lparr>style := (style e)(k \<mapsto> v)\<rparr>"

text \<open>Writing through a reference: a property access on \<open>null\<close> throws a TypeError.\<close>

definition on_node :: "nat option \<Rightarrow> (element \<Rightarrow> element) \<Rightarrow> page stmt" where
  "on_node r f =
     (case r of
        None \<Rightarrow> throw (TypeError ''Cannot read properties of null'')
      | Some i \<Rightarrow> modify (\<lambda>p. put_nodes ((nodes p)[i := f (nodes p ! i)]) p))"

definition on_root :: "(element \<Rightarrow> element) \<Rightarrow> page stmt" where
  "on_root f = modify (\<lambda>p. p\<lparr>documentElement := f (documentElement p)\<rparr>)"

subsection \<open>Selectors\<close>

text \<open>The simple selectors this file uses; a selector group is a list of them
  (\<open>'.a, .b'\<close>). Queries on the document range over all its nodes, the document
  element included.\<close>

datatype selector =
    Class string \<comment> \<open>\<open>.c\<close>\<close>
  | Tag string \<comment> \<open>\<open>t\<close>\<close>
  | TagClass string string \<comment> \<open>\<open>t.c\<close>\<close>
  | TagAttrEq string string string \<comment> \<open>\<open>t[a="v"]\<close>\<close>
  | HasAttr string \<comment> \<open>\<open>[a]\<close>\<close>
  | TagHasAttr string string \<comment> \<open>\<open>t[a]\<close>\<close>
  | ClassContains string \<comment> \<open>\<open>[class*="x"]\<close>\<close>

fun is_prefix :: "string \<Rightarrow> string \<Rightarrow> bool" where
  "is_prefix [] ys = True"
| "is_prefix (x # xs) [] = False"
| "is_prefix (x # xs) (y # ys) = (x = y \<and> is_prefix xs ys)"

fun contains :: "string \<Rightarrow> string \<Rightarrow> bool" where
  "contains x [] = (x = [])"
| "contains x (y # ys) = (is_prefix x (y # ys) \<or> contains x ys)"

fun matches :: "element \<Rightarrow> selector \<Rightarrow> bool" where
  "matches e (Class c) = (c \<in> set (classList e))"
| "matches e (Tag t) = (tag e = t)"
| "matches e (TagClass t c) = (tag e = t \<and> c \<in> set (classList e))"
| "matches e (TagAttrEq t a v) = (tag e = t \<and> attrs e a = Some v)"
| "matches e (HasAttr a) = (attrs e a \<noteq> None)"
| "matches e (TagHasAttr t a) = (tag e = t \<and> attrs e a \<noteq> None)"
| "matches e (ClassContains x) = list_ex (contains x) (classList e)"

definition matches_any :: "element \<Rightarrow> selector list \<Rightarrow> bool" where
  "matches_any e sels = list_ex (matches e) sels"

definition querySelectorAll :: "selector list \<Rightarrow> page \<Rightarrow> nat list" where
  "querySelectorAll sels p =
     filter (\<lambda>i. matches_any (nodes p ! i) sels) [0..<length (nodes p)]"

definition querySelector :: "selector list \<Rightarrow> page \<Rightarrow> nat option" where
  "querySelector sels p =
     (case querySelectorAll sels p of [] \<Rightarrow> None | i # _ \<Rightarrow> Some i)"

text \<open>\<open>el.closest(sel)\<close>: the element itself or its nearest ancestor that matches,
  up to the document element.\<close>

function closest :: "selector list \<Rightarrow> page \<Rightarrow> nat \<Rightarrow> nat option" where
  "closest sels p i =
     (if i \<ge> length (nodes p) then None
      else if matches_any (nodes p ! i) sels then Some i
      else if i = 0 then None
      else (case parent (nodes p ! i) of
              None \<Rightarrow> closest sels p 0
            | Some j \<Rightarrow> if j < i then closest sels p j else closest sels p 0))"
  by pat_completeness auto
termination
  by (relation "measure (\<lambda>(sels, p, i). i)") auto

declare closest.simps [simp del]

section \<open>The platform\<close>

text \<open>What the handlers read from \<open>window\<close>, \<open>navigator\<close> and \<open>document\<close>.
  Sizes are integers; the device pixel ratio is a finite number. \<open>zoomPercent\<close> is
  \<open>Math.round(window.devicePixelRatio * 100)\<close> as the platform's double arithmetic
  gives it: the product is rounded to a double before \<open>Math.round\<close>, so it is taken
  from the platform and not computed from the ratio here. A network-information object
  is its \<open>effectiveType\<close> (\<open>None\<close> when undefined).\<close>

record window_env =
  innerWidth :: int
  innerHeight :: int
  devicePixelRatio :: real
  zoomPercent :: int
  hidden :: bool
  ontouchstart :: bool
  maxTouchPoints :: "int option"
  msMaxTouchPoints :: "int option"
  navConnection :: "string option option"
  mozConnection :: "string option option"
  webkitConnection :: "string option option"
  hasIntersectionObserver :: bool
  hasImgLoading :: bool

section \<open>ResponsiveManager\<close>

record viewport_state =
  width :: int
  height :: int
  isMobile :: bool
  isTablet :: bool
  isDesktop :: bool
  isSmallDesktop :: bool
  isLargeDesktop :: bool
  is4K :: bool
  pixelRatio :: real
  orientation :: string
  zoomLevel :: int
  isRetina :: bool
  isTouch :: bool
  connection :: string

text \<open>A subscriber gets the event name and the viewport state and acts on the page;
  it may throw. The platform's event listeners are the manager's own handlers; each
  \<open>debounce\<close> call makes a wrapper with a timer variable of its own, numbered here.\<close>

type_synonym callback = "string \<Rightarrow> viewport_state \<Rightarrow> page stmt"

datatype handler = OnResize | OnOrientationChange | OnVisibilityChange | DebouncedZoom nat

record sys =
  window :: window_env
  viewportState :: viewport_state
  listeners :: "callback list"
  thePage :: page
  eventListeners :: "(string \<times> handler) list"
  debounced :: nat

definition in_page :: "page stmt \<Rightarrow> sys stmt" where
  "in_page c s = (case c (thePage s) of (r, p') \<Rightarrow> (r, s\<lparr>thePage := p'\<rparr>))"

text \<open>The \<open>viewportState\<close> literal, evaluated when the script loads.\<close>

definition initialViewportState :: "window_env \<Rightarrow> viewport_state" where
  "initialViewportState w =
     \<lparr>width = innerWidth w,
      height = innerHeight w,
      isMobile = (innerWidth w < 576),
      isTablet = (innerWidth w \<ge> 576 \<and> innerWidth w < 992),
      isDesktop = (innerWidth w \<ge> 992),
      isSmallDesktop = (innerWidth w \<ge> 992 \<and> innerWidth w < 1200),
      isLargeDesktop = (innerWidth w \<ge> 1200),
      is4K = (innerWidth w \<ge> 1920),
      pixelRatio = (if devicePixelRatio w = 0 then 1 else devicePixelRatio w),
      orientation = (if innerHeight w > innerWidth w then ''portrait'' else ''landscape''),
      zoomLevel = zoomPercent w,
      isRetina = (devicePixelRatio w \<ge> 2),
      isTouch = False,
      connection = ''unknown''\<rparr>"

definition getViewportName :: "sys \<Rightarrow> string" where
  "getViewportName s =
     (if is4K (viewportState s) then ''4k''
      else if isLargeDesktop (viewportState s) then ''xl''
      else if isSmallDesktop (viewportState s) then ''lg''
      else if isDesktop (viewportState s) then ''md''
      else if isTablet (viewportState s) then ''sm''
      else ''xs'')"

definition updateViewportClass :: "sys stmt" where
  "updateViewportClass = block
     [in_page (on_root (classList_remove
        [''viewport-xs'', ''viewport-sm'', ''viewport-md'', ''viewport-lg'',
         ''viewport-xl'', ''viewport-2xl''])),
      (\<lambda>s. if is4K (viewportState s) then in_page (on_root (classList_add ''viewport-2xl'')) s
            else if isLargeDesktop (viewportState s) then
              in_page (on_root (classList_add ''viewport-xl'')) s
            else if isSmallDesktop (viewportState s) then
              in_page (on_root (classList_add ''viewport-lg'')) s
            else if isDesktop (viewportState s) then
              in_page (on_root (classList_add ''viewport-md'')) s
            else if isTablet (viewportState s) then
              in_page (on_root (classList_add ''viewport-sm'')) s
            else in_page (on_root (classList_add ''viewport-xs'')) s),
      (\<lambda>s. in_page (on_root (setAttribute ''data-viewport'' (getViewportName s))) s),
      (\<lambda>s. in_page (on_root (setAttribute ''data-touch''
              (if isTouch (viewportState s) then ''true'' else ''false''))) s)]"

definition updateViewportState :: "int \<Rightarrow> int \<Rightarrow> sys stmt" where
  "updateViewportState w h = block
     [modify (\<lambda>s. s\<lparr>viewportState := (viewportState s)\<lparr>width := w\<rparr>\<rparr>),
      modify (\<lambda>s. s\<lparr>viewportState := (viewportState s)\<lparr>height := h\<rparr>\<rparr>),
      modify (\<lambda>s. s\<lparr>viewportState := (viewportState s)\<lparr>isMobile := (w < 576)\<rparr>\<rparr>),
      modify (\<lambda>s. s\<lparr>viewportState := (viewportState s)\<lparr>isTablet := (w \<ge> 576 \<and> w < 992)\<rparr>\<rparr>),
      modify (\<lambda>s. s\<lparr>viewportState := (viewportState s)\<lparr>isDesktop := (w \<ge> 992)\<rparr>\<rparr>),
      modify (\<lambda>s. s\<lparr>viewportState := (viewportState s)\<lparr>isSmallDesktop := (w \<ge> 992 \<and> w < 1200)\<rparr>\<rparr>),
      modify (\<lambda>s. s\<lparr>viewportState := (viewportState s)\<lparr>isLargeDesktop := (w \<ge> 1200)\<rparr>\<rparr>),
      modify (\<lambda>s. s\<lparr>viewportState := (viewportState s)\<lparr>is4K := (w \<ge> 1920)\<rparr>\<rparr>),
      updateViewportClass]"

definition detectTouch :: "window_env \<Rightarrow> bool" where
  "detectTouch w =
     (ontouchstart w \<or>
      (case maxTouchPoints w of None \<Rightarrow> False | Some n \<Rightarrow> n > 0) \<or>
      (case msMaxTouchPoints w of None \<Rightarrow> False | Some n \<Rightarrow> n > 0))"

definition detectConnectionSpeed :: "window_env \<Rightarrow> string" where
  "detectConnectionSpeed w =
     (let connection =
        (case navConnection w of
           Some c \<Rightarrow> Some c
         | None \<Rightarrow>
             (case mozConnection w of
                Some c \<Rightarrow> Some c
              | None \<Rightarrow> webkitConnection w))
      in case connection of
           None \<Rightarrow> ''unknown''
         | Some effectiveType \<Rightarrow>
             (case effectiveType of
                None \<Rightarrow> ''unknown''
              | Some t \<Rightarrow> if t = [] then ''unknown'' else t))"

subsection \<open>The adjustment pass\<close>

text \<open>The four procedures read \<open>this.viewportState\<close> (the argument) and write to the
  page.\<close>

definition adjustNavbarLogo :: "viewport_state \<Rightarrow> page stmt" where
  "adjustNavbarLogo vs p =
     (let logo = querySelector [Class ''ubc-logo''] p;
          facilitiesLogo = querySelector [Class ''ubc-facilities-logo''] p
      in block
        [if logo \<noteq> None then
           (if isMobile vs then on_node logo (setStyle ''maxHeight'' ''50px'')
            else if isTablet vs then on_node logo (setStyle ''maxHeight'' ''70px'')
            else on_node logo (setStyle ''maxHeight'' ''85px''))
         else skip,
         if facilitiesLogo \<noteq> None then
           (if isMobile vs then on_node facilitiesLogo (setStyle ''maxHeight'' ''50px'')
            else if isTablet vs then on_node facilitiesLogo (setStyle ''maxHeight'' ''70px'')
            else on_node facilitiesLogo (setStyle ''maxHeight'' ''85px''))
         else skip] p)"

definition adjustChartSizes :: "viewport_state \<Rightarrow> page stmt" where
  "adjustChartSizes vs p =
     (let charts = querySelectorAll
            [Class ''chart-img'', Class ''responsive-iframe'', Class ''chart-container''] p
      in forEach charts (\<lambda>chart.
           if isMobile vs then on_node (Some chart) (setStyle ''maxHeight'' ''50vh'')
           else if isTablet vs then on_node (Some chart) (setStyle ''maxHeight'' ''60vh'')
           else on_node (Some chart) (setStyle ''maxHeight'' ''70vh'')) p)"

definition table_container :: "page \<Rightarrow> nat \<Rightarrow> nat option" where
  "table_container p table =
     (case closest [Class ''table-responsive''] p table of
        Some c \<Rightarrow> Some c
      | None \<Rightarrow> closest [Class ''asset-table-container''] p table)"

definition adjustTableDisplay :: "viewport_state \<Rightarrow> page stmt" where
  "adjustTableDisplay vs p =
     (let tables = querySelectorAll [Class ''asset-table''] p
      in forEach tables (\<lambda>table q.
           (let container = table_container q table
            in if container \<noteq> None \<and> isMobile vs then
                 on_node container (setStyle ''fontSize'' ''0.85rem'') q
               else if container \<noteq> None then
                 on_node container (setStyle ''fontSize'' ''1rem'') q
               else (Normal, q))) p)"

definition handleModalResponsiveness :: "viewport_state \<Rightarrow> page stmt" where
  "handleModalResponsiveness vs p =
     (let modals = querySelectorAll [Class ''modal-dialog''] p
      in forEach modals (\<lambda>modal.
           if isMobile vs then block
             [on_node (Some modal) (classList_add ''modal-dialog-scrollable''),
              on_node (Some modal) (setStyle ''margin'' ''0.5rem'')]
           else block
             [on_node (Some modal) (classList_remove [''modal-dialog-scrollable'']),
              on_node (Some modal) (setStyle ''margin'' ''1.75rem auto'')]) p)"

definition applyResponsiveAdjustments :: "viewport_state \<Rightarrow> page stmt" where
  "applyResponsiveAdjustments vs = block
     [adjustNavbarLogo vs,
      adjustChartSizes vs,
      adjustTableDisplay vs,
      handleModalResponsiveness vs]"

subsection \<open>Subscribers\<close>

definition subscribe :: "callback \<Rightarrow> sys stmt" where
  "subscribe callback = modify (\<lambda>s. s\<lparr>listeners := listeners s @ [callback]\<rparr>)"

text \<open>The state after the callbacks of a list have subscribed, in the order of the list.\<close>

definition subscribed :: "sys \<Rightarrow> callback list \<Rightarrow> sys" where
  "subscribed s callbacks = foldl (\<lambda>s callback. snd (subscribe callback s)) s callbacks"

definition triggerListeners :: "string \<Rightarrow> viewport_state \<Rightarrow> sys stmt" where
  "triggerListeners event state s =
     forEach (listeners s) (\<lambda>callback.
       try_catch (in_page (callback event state))
         (\<lambda>e. in_page (console_error ''Error in responsive listener:'' e))) s"

subsection \<open>Event handlers\<close>

definition onResize :: "sys stmt" where
  "onResize s =
     (let newWidth = innerWidth (window s);
          newHeight = innerHeight (window s)
      in if newWidth \<noteq> width (viewportState s) \<or> newHeight \<noteq> height (viewportState s) then
           block
             [updateViewportState newWidth newHeight,
              (\<lambda>s. in_page (applyResponsiveAdjustments (viewportState s)) s),
              (\<lambda>s. triggerListeners ''resize'' (viewportState s) s)] s
         else (Normal, s))"

definition onOrientationChange :: "sys stmt" where
  "onOrientationChange s =
     (let orientation' =
            (if innerHeight (window s) > innerWidth (window s) then ''portrait''
             else ''landscape'')
      in if orientation' \<noteq> orientation (viewportState s) then
           block
             [modify (\<lambda>s. s\<lparr>viewportState := (viewportState s)\<lparr>orientation := orientation'\<rparr>\<rparr>),
              in_page (on_root (setAttribute ''data-orientation'' orientation')),
              (\<lambda>s. triggerListeners ''orientationchange'' (viewportState s) s)] s
         else (Normal, s))"

definition onVisibilityChange :: "sys stmt" where
  "onVisibilityChange s =
     (if hidden (window s) then triggerListeners ''hide'' (viewportState s) s
      else block
        [onResize,
         (\<lambda>s. triggerListeners ''show'' (viewportState s) s)] s)"

definition onZoomChange :: "sys stmt" where
  "onZoomChange s =
     (let currentZoom = zoomPercent (window s)
      in if currentZoom \<noteq> zoomLevel (viewportState s) then
           block
             [modify (\<lambda>s. s\<lparr>viewportState := (viewportState s)\<lparr>zoomLevel := currentZoom\<rparr>\<rparr>),
              in_page (console_log ''Zoom level changed to:''),
              (\<lambda>s. triggerListeners ''zoom'' (viewportState s) s)] s
         else (Normal, s))"

subsection \<open>Initialisation\<close>

text \<open>\<open>bind\<close> and \<open>debounce\<close> return a new function at every call, so the platform
  never finds the listener already registered: every \<open>addEventListener\<close> appends.\<close>

definition addEventListener :: "string \<Rightarrow> handler \<Rightarrow> sys stmt" where
  "addEventListener ev h = modify (\<lambda>s. s\<lparr>eventListeners := eventListeners s @ [(ev, h)]\<rparr>)"

definition init :: "sys stmt" where
  "init = block
     [modify (\<lambda>s. s\<lparr>viewportState :=
        (viewportState s)\<lparr>isTouch := detectTouch (window s)\<rparr>\<rparr>),
      modify (\<lambda>s. s\<lparr>viewportState :=
        (viewportState s)\<lparr>connection := detectConnectionSpeed (window s)\<rparr>\<rparr>),
      in_page (console_log ''ResponsiveManager initialized:''),
      addEventListener ''resize'' OnResize,
      addEventListener ''orientationchange'' OnOrientationChange,
      addEventListener ''visibilitychange'' OnVisibilityChange,
      (\<lambda>s. addEventListener ''wheel'' (DebouncedZoom (debounced s))
              (s\<lparr>debounced := debounced s + 1\<rparr>)),
      (\<lambda>s. in_page (applyResponsiveAdjustments (viewportState s)) s),
      in_page (on_root (classList_add ''js-enabled'')),
      updateViewportClass]"

section \<open>TouchManager, PerformanceMonitor, ImageOptimizer\<close>

definition enhanceTouchTargets :: "page stmt" where
  "enhanceTouchTargets p =
     (let buttons = querySelectorAll
            [Tag ''button'', TagClass ''a'' ''btn'', TagAttrEq ''input'' ''type'' ''button''] p
      in forEach buttons (\<lambda>button. block
           [on_node (Some button) (setStyle ''minHeight'' ''44px''),
            on_node (Some button) (setStyle ''minWidth'' ''44px'')]) p)"

definition enableTouchScrolling :: "page stmt" where
  "enableTouchScrolling p =
     (let scrollableElements = querySelectorAll
            [Class ''table-responsive'', Class ''asset-table-container''] p
      in forEach scrollableElements (\<lambda>el.
           on_node (Some el) (setStyle ''webkitOverflowScrolling'' ''touch'')) p)"

definition TouchManager_init :: "sys stmt" where
  "TouchManager_init s =
     (if isTouch (viewportState s) then
        in_page (block
          [on_root (classList_add ''touch-device''),
           enhanceTouchTargets,
           enableTouchScrolling]) s
      else (Normal, s))"

definition pauseAnimations :: "page stmt" where
  "pauseAnimations p =
     forEach (querySelectorAll [ClassContains ''animation''] p) (\<lambda>el.
       on_node (Some el) (setStyle ''animationPlayState'' ''paused'')) p"

definition resumeAnimations :: "page stmt" where
  "resumeAnimations p =
     forEach (querySelectorAll [ClassContains ''animation''] p) (\<lambda>el.
       on_node (Some el) (setStyle ''animationPlayState'' ''running'')) p"

definition visibilityCallback :: callback where
  "visibilityCallback event state =
     (if event = ''hide'' then pauseAnimations
      else if event = ''show'' then resumeAnimations
      else skip)"

definition PerformanceMonitor_init :: "sys stmt" where
  "PerformanceMonitor_init = block
     [(\<lambda>s. if connection (viewportState s) = ''4g'' \<or> connection (viewportState s) = ''lte'' then
              in_page (console_log ''High-speed connection detected'') s
            else if connection (viewportState s) = ''2g'' \<or> connection (viewportState s) = ''3g''
            then in_page (console_warn
              ''Slow connection detected. Consider optimizing images and assets.'') s
            else (Normal, s)),
      subscribe visibilityCallback]"

definition setupLazyLoading :: "sys stmt" where
  "setupLazyLoading s =
     (if hasIntersectionObserver (window s) \<and> hasImgLoading (window s) then
        in_page (\<lambda>p. forEach (querySelectorAll [TagHasAttr ''img'' ''data-src''] p) (\<lambda>img. block
          [on_node (Some img) (setAttribute ''loading'' ''lazy''),
           (\<lambda>q. case attrs (nodes q ! img) ''data-src'' of
                   None \<Rightarrow> (Normal, q)
                 | Some src \<Rightarrow>
                     if src = [] then (Normal, q)
                     else block
                       [on_node (Some img) (setAttribute ''src'' src),
                        on_node (Some img) (removeAttribute ''data-src'')] q)]) p) s
      else (Normal, s))"

definition ImageOptimizer_init :: "sys stmt" where
  "ImageOptimizer_init = setupLazyLoading"

section \<open>Form responsiveness\<close>

definition enhanceFormResponsiveness :: "sys stmt" where
  "enhanceFormResponsiveness s =
     in_page (\<lambda>p. forEach (querySelectorAll [Tag ''input'', Tag ''textarea'', Tag ''select''] p)
       (\<lambda>input.
          if isTouch (viewportState s) then block
            [on_node (Some input) (setStyle ''fontSize'' ''16px''),
             on_node (Some input) (setStyle ''minHeight'' ''44px'')]
          else skip) p) s"

section \<open>Startup\<close>

text \<open>
  A method is looked up on its object when the call runs. The two
  \<open>DOMContentLoaded\<close> handlers are therefore stated over what the lookup of each
  \<open>init\<close> (and of \<open>window.enhanceFormResponsiveness\<close>) finds: \<open>Some f\<close> for a
  function, \<open>None\<close> for anything else. Calling what is not a function throws a
  TypeError; the first handler asks \<open>typeof \<dots> === 'function'\<close> before each call.
\<close>

record managers =
  rmInit :: "sys stmt option"
  touchInit :: "sys stmt option"
  perfInit :: "sys stmt option"
  imageInit :: "sys stmt option"
  enhanceForm :: "sys stmt option"

definition call :: "'s stmt option \<Rightarrow> 's stmt" where
  "call f = (case f of None \<Rightarrow> throw (TypeError ''is not a function'') | Some g \<Rightarrow> g)"

definition is_function :: "'s stmt option \<Rightarrow> bool" where
  "is_function f = (f \<noteq> None)"

definition mainStartupHandler :: "managers \<Rightarrow> sys stmt" where
  "mainStartupHandler m =
     try_catch
       (block
          [if is_function (rmInit m) then call (rmInit m) else skip,
           if is_function (touchInit m) then call (touchInit m) else skip,
           if is_function (perfInit m) then call (perfInit m) else skip,
           if is_function (imageInit m) then call (imageInit m) else skip,
           in_page (console_log ''Responsive Design System Loaded'')])
       (\<lambda>error. in_page (console_error ''Error initializing Responsive Design System:'' error))"

definition formStartupHandler :: "managers \<Rightarrow> sys stmt" where
  "formStartupHandler m = block
     [call (rmInit m),
      call (enhanceForm m)]"

text \<open>The objects as the script defines them.\<close>

definition theManagers :: managers where
  "theManagers =
     \<lparr>rmInit = Some init,
      touchInit = Some TouchManager_init,
      perfInit = Some PerformanceMonitor_init,
      imageInit = Some ImageOptimizer_init,
      enhanceForm = Some enhanceFormResponsiveness\<rparr>"

text \<open>The platform runs the listeners of an event in the order of their registration;
  an exception leaving one is reported on the console and the next one still runs.\<close>

definition reported :: "sys stmt \<Rightarrow> sys stmt" where
  "reported c = try_catch c (\<lambda>e. in_page (console_error ''Uncaught'' e))"

definition domContentLoaded :: "managers \<Rightarrow> sys stmt" where
  "domContentLoaded m = block
     [reported (mainStartupHandler m),
      reported (formStartupHandler m)]"

text \<open>The state after both handlers have run.\<close>

definition started :: "sys \<Rightarrow> sys" where
  "started s = snd (domContentLoaded theManagers s)"

text \<open>What a listener does to the manager when the platform calls it. A debounced
  wrapper only sets its timer then, which leaves the manager as it is; the timers, and
  what the wrapper does to them, are the subject of the next section.\<close>

fun runHandler :: "handler \<Rightarrow> sys stmt" where
  "runHandler OnResize = onResize"
| "runHandler OnOrientationChange = onOrientationChange"
| "runHandler OnVisibilityChange = onVisibilityChange"
| "runHandler (DebouncedZoom k) = skip"

definition dispatchEvent :: "string \<Rightarrow> sys stmt" where
  "dispatchEvent ev s =
     forEach (map snd (filter (\<lambda>(name, h). name = ev) (eventListeners s)))
       (\<lambda>h. reported (runHandler h)) s"

section \<open>Debounce\<close>

text \<open>
  \<open>debounce(func, wait)\<close> returns a wrapper closed over a variable of its own,
  \<open>timeout\<close>; \<open>init\<close> makes one wrapper each time it runs, so \<open>timeout\<close> is
  a table from the wrapper's number to its variable (\<open>None\<close> for \<open>undefined\<close>).
  The platform's timers are a table of pending timers, each with an id, the time it is
  due (in milliseconds) and what its \<open>later\<close> closure holds: the wrapper whose
  \<open>timeout\<close> and \<open>func\<close> it refers to, and the arguments. \<open>funcs k\<close> is
  the function that wrapper \<open>k\<close> debounces; it gets its arguments and, since it reads
  the platform when it runs, the time at which it runs.
\<close>

record ('a, 's) timed =
  pendingTimers :: "(nat \<times> nat \<times> nat \<times> 'a) list"
  nextTimerId :: nat
  timeout :: "nat \<Rightarrow> nat option"
  world :: 's

definition clearTimeout :: "nat option \<Rightarrow> ('a, 's) timed \<Rightarrow> ('a, 's) timed" where
  "clearTimeout h d =
     (case h of
        None \<Rightarrow> d
      | Some i \<Rightarrow> d\<lparr>pendingTimers := filter (\<lambda>(j, due, k, a). j \<noteq> i) (pendingTimers d)\<rparr>)"

definition setTimeout ::
  "nat \<Rightarrow> 'a \<Rightarrow> nat \<Rightarrow> nat \<Rightarrow> ('a, 's) timed \<Rightarrow> nat \<times> ('a, 's) timed" where
  "setTimeout k args wait now d =
     (nextTimerId d,
      d\<lparr>pendingTimers := pendingTimers d @ [(nextTimerId d, now + wait, k, args)],
        nextTimerId := nextTimerId d + 1\<rparr>)"

text \<open>Wrapper \<open>k\<close>, called at time \<open>now\<close>.\<close>

definition executedFunction ::
  "nat \<Rightarrow> nat \<Rightarrow> nat \<Rightarrow> 'a \<Rightarrow> ('a, 's) timed \<Rightarrow> ('a, 's) timed" where
  "executedFunction k wait now args d =
     (let d1 = clearTimeout (timeout d k) d;
          (h, d2) = setTimeout k args wait now d1
      in d2\<lparr>timeout := (timeout d2)(k := Some h)\<rparr>)"

text \<open>The closure of a timer that wrapper \<open>k\<close> has set, run at time \<open>now\<close>.\<close>

definition later ::
  "(nat \<Rightarrow> 'a \<Rightarrow> nat \<Rightarrow> 's \<Rightarrow> 's) \<Rightarrow> nat \<Rightarrow> nat \<Rightarrow> 'a \<Rightarrow> ('a, 's) timed \<Rightarrow> ('a, 's) timed" where
  "later funcs k now args d =
     (let d1 = clearTimeout (timeout d k) d
      in d1\<lparr>world := funcs k args now (world d1)\<rparr>)"

text \<open>The first pending timer that is due at \<open>t\<close>: the earliest due time, and among
  equals the one set first.\<close>

fun earliest :: "(nat \<times> nat \<times> 'b) list \<Rightarrow> (nat \<times> nat \<times> 'b) option" where
  "earliest [] = None"
| "earliest (x # xs) =
     (case earliest xs of
        None \<Rightarrow> Some x
      | Some y \<Rightarrow> if fst (snd y) < fst (snd x) then Some y else Some x)"

definition nextDue :: "nat \<Rightarrow> (nat \<times> nat \<times> 'b) list \<Rightarrow> (nat \<times> nat \<times> 'b) option" where
  "nextDue t ts = earliest (filter (\<lambda>(i, due, c). due \<le> t) ts)"

text \<open>The event loop up to time \<open>t\<close>: every timer due by then runs at its due time,
  after being taken off the table.\<close>

function runTimers ::
  "(nat \<Rightarrow> 'a \<Rightarrow> nat \<Rightarrow> 's \<Rightarrow> 's) \<Rightarrow> nat \<Rightarrow> ('a, 's) timed \<Rightarrow> ('a, 's) timed" where
  "runTimers funcs t d =
     (case nextDue t (pendingTimers d) of
        None \<Rightarrow> d
      | Some (i, due, k, args) \<Rightarrow>
          runTimers funcs t
            (later funcs k due args
               (d\<lparr>pendingTimers := filter (\<lambda>(j, due', k', a). j \<noteq> i) (pendingTimers d)\<rparr>)))"
  by pat_completeness auto

text \<open>Every timer that runs leaves the table, and nothing that runs adds one: the
  event loop ends.\<close>

lemma earliest_mem: "earliest xs = Some x \<Longrightarrow> x \<in> set xs"
  by (induction xs arbitrary: x) (auto split: option.splits if_splits)

lemma nextDue_mem: "nextDue t ts = Some x \<Longrightarrow> x \<in> set ts"
  unfolding nextDue_def using earliest_mem by fastforce

lemma pending_clearTimeout_le:
  "length (pendingTimers (clearTimeout h d)) \<le> length (pendingTimers d)"
  by (cases h) (simp_all add: clearTimeout_def)

lemma pending_later_le:
  "length (pendingTimers (later funcs k now args d)) \<le> length (pendingTimers d)"
  by (simp add: later_def Let_def pending_clearTimeout_le)

lemma fired_shorter:
  assumes "nextDue t (pendingTimers d) = Some (i, due, k, args)"
  shows "length (pendingTimers (later funcs k due args
           (d\<lparr>pendingTimers := filter (\<lambda>(j, due', k', a). j \<noteq> i) (pendingTimers d)\<rparr>)))
         < length (pendingTimers d)"
proof -
  have "(i, due, k, args) \<in> set (pendingTimers d)"
    using assms by (rule nextDue_mem)
  then have "length (filter (\<lambda>(j, due', k', a). j \<noteq> i) (pendingTimers d))
      < length (pendingTimers d)"
    by (intro length_filter_less) auto
  moreover have "length (pendingTimers (later funcs k due args
           (d\<lparr>pendingTimers := filter (\<lambda>(j, due', k', a). j \<noteq> i) (pendingTimers d)\<rparr>)))
       \<le> length (filter (\<lambda>(j, due', k', a). j \<noteq> i) (pendingTimers d))"
    using pending_later_le [of funcs k due args
        "d\<lparr>pendingTimers := filter (\<lambda>(j, due', k', a). j \<noteq> i) (pendingTimers d)\<rparr>"]
    by simp
  ultimately show ?thesis by linarith
qed

termination runTimers
  by (relation "measure (\<lambda>(funcs, t, d). length (pendingTimers d))") (auto intro: fired_shorter)

declare runTimers.simps [simp del]

text \<open>The platform calls the listeners of an event, at time \<open>now\<close> and with the event
  as argument, in the order of their registration. A listener that \<open>debounce\<close>
  returned is the wrapper, \<open>init\<close> having given it 500 ms to wait; the other
  listeners are the bound handlers, which act on the manager at once.\<close>

fun callListener :: "nat \<Rightarrow> 'a \<Rightarrow> handler \<Rightarrow> ('a, sys) timed \<Rightarrow> ('a, sys) timed" where
  "callListener now args (DebouncedZoom k) d = executedFunction k 500 now args d"
| "callListener now args h d = d\<lparr>world := snd (reported (runHandler h) (world d))\<rparr>"

definition dispatchAt :: "string \<Rightarrow> nat \<Rightarrow> 'a \<Rightarrow> ('a, sys) timed \<Rightarrow> ('a, sys) timed" where
  "dispatchAt ev now args d =
     fold (callListener now args)
       (map snd (filter (\<lambda>(name, h). name = ev) (eventListeners (world d)))) d"

text \<open>Wheel events arrive in the order of their times; before the listeners are called
  at time \<open>t\<close>, the timers due by then have run.\<close>

fun wheelEvents ::
  "(nat \<Rightarrow> 'a \<Rightarrow> nat \<Rightarrow> sys \<Rightarrow> sys) \<Rightarrow> (nat \<times> 'a) list \<Rightarrow> ('a, sys) timed \<Rightarrow> ('a, sys) timed" where
  "wheelEvents funcs [] d = d"
| "wheelEvents funcs ((t, args) # es) d =
     wheelEvents funcs es (dispatchAt ''wheel'' t args (runTimers funcs t d))"

text \<open>The platform when no timer has been set yet, with the manager in state \<open>w\<close>.\<close>

definition untimed :: "'s \<Rightarrow> ('a, 's) timed" where
  "untimed w = \<lparr>pendingTimers = [], nextTimerId = 0, timeout = (\<lambda>k. None), world = w\<rparr>"

text \<open>Every wrapper that \<open>init\<close> registers for wheel events debounces
  \<open>onZoomChange\<close>, which ignores its arguments and reads the platform as it is when
  the timer runs.\<close>

definition zoomCheck :: "(nat \<Rightarrow> window_env) \<Rightarrow> nat \<Rightarrow> 'a \<Rightarrow> nat \<Rightarrow> sys \<Rightarrow> sys" where
  "zoomCheck platform k args now s = snd (onZoomChange (s\<lparr>window := platform now\<rparr>))"

section \<open>The state when the script has loaded, and sample inputs\<close>

text \<open>The manager as the object literal defines it. The subscribers are those registered
  while the page's scripts load (this script's own helpers among them).\<close>

definition loaded :: "window_env \<Rightarrow> page \<Rightarrow> callback list \<Rightarrow> sys" where
  "loaded w p subscribers =
     \<lparr>window = w, viewportState = initialViewportState w, listeners = subscribers,
      thePage = p, eventListeners = [], debounced = 0\<rparr>"

definition sampleWindow :: "int \<Rightarrow> int \<Rightarrow> window_env" where
  "sampleWindow w h =
     \<lparr>innerWidth = w, innerHeight = h, devicePixelRatio = 1, zoomPercent = 100,
      hidden = False,
      ontouchstart = False, maxTouchPoints = Some 0, msMaxTouchPoints = None,
      navConnection = None, mozConnection = None, webkitConnection = None,
      hasIntersectionObserver = True, hasImgLoading = True\<rparr>"

definition plainElement :: "string \<Rightarrow> string list \<Rightarrow> nat option \<Rightarrow> element" where
  "plainElement t cs par =
     \<lparr>tag = t, attrs = Map.empty, classList = cs, style = Map.empty, parent = par\<rparr>"

definition samplePage :: "element list \<Rightarrow> page" where
  "samplePage es =
     \<lparr>documentElement = plainElement ''html'' [] None, elements = es, console = []\<rparr>"

definition dashboardPage :: page where
  "dashboardPage = samplePage
     [plainElement ''img'' [''ubc-logo''] None,
      plainElement ''div'' [''table-responsive''] None,
      plainElement ''table'' [''asset-table''] (Some 2),
      plainElement ''div'' [''chart-container''] None,
      plainElement ''div'' [''modal-dialog''] None]"

text \<open>A page whose document element is itself a modal dialog and the scroll container
  of the one table below it.\<close>

definition rootModalPage :: page where
  "rootModalPage =
     \<lparr>documentElement = plainElement ''html'' [''modal-dialog'', ''table-responsive''] None,
      elements = [plainElement ''table'' [''asset-table''] None], console = []\<rparr>"

definition mobileState :: viewport_state where
  "mobileState = initialViewportState (sampleWindow 500 800)"


text \<open>A subscriber that writes on the console its name, the event and whether the
  state it got is mobile; and one that writes its name and the event, and then throws.\<close>

definition probe :: "string \<Rightarrow> callback" where
  "probe name event state =
     console_log (name @ '':'' @ event @ (if isMobile state then '':mobile'' else '':wide''))"

definition faulty :: "string \<Rightarrow> callback" where
  "faulty name event state = block [console_log (name @ '':'' @ event), throw (Thrown name)]"

text \<open>A wide window with one subscriber; the same after the window has shrunk to 500
  pixels; and a hidden page.\<close>

definition wideState :: sys where
  "wideState = loaded (sampleWindow 1000 800) dashboardPage [probe ''a'']"

definition narrowedState :: sys where
  "narrowedState = wideState\<lparr>window := sampleWindow 500 800\<rparr>"


text \<open>Three subscribers, subscribed in this order to an empty registry, the second of
  which throws; and a state in which only \<open>isDesktop\<close> holds among the desktop fields
  (no width gives it).\<close>

definition threeSubscribers :: sys where
  "threeSubscribers =
     subscribed (loaded (sampleWindow 1000 800) (samplePage []) [])
       [probe ''a'', faulty ''b'', probe ''c'']"

definition desktopOnlyState :: sys where
  "desktopOnlyState = wideState\<lparr>viewportState :=
     (viewportState wideState)\<lparr>isSmallDesktop := False\<rparr>\<rparr>"

text \<open>A function to debounce that writes on the console which wrapper's timer called it
  and with which event, and a platform whose zoom changes at 900 ms.\<close>

definition stamp :: "nat \<Rightarrow> string \<Rightarrow> nat \<Rightarrow> sys \<Rightarrow> sys" where
  "stamp k args now s =
     snd (in_page (console_log ((if k = 0 then ''wrapper 0: '' else ''wrapper 1: '') @ args)) s)"

definition zoomingPlatform :: "nat \<Rightarrow> window_env" where
  "zoomingPlatform t =
     (sampleWindow 1000 800)\<lparr>devicePixelRatio := (if t < 900 then 1 else 3 / 2),
       zoomPercent := (if t < 900 then 100 else 150)\<rparr>"

section \<open>Notions of the specification\<close>

text \<open>The size-derived fields as \<open>updateViewportState\<close> leaves them.\<close>

definition breakpoints :: "int \<Rightarrow> int \<Rightarrow> viewport_state \<Rightarrow> viewport_state" where
  "breakpoints w h vs =
     vs\<lparr>width := w, height := h, isMobile := (w < 576),
        isTablet := (w \<ge> 576 \<and> w < 992), isDesktop := (w \<ge> 992),
        isSmallDesktop := (w \<ge> 992 \<and> w < 1200), isLargeDesktop := (w \<ge> 1200),
        is4K := (w \<ge> 1920)\<rparr>"

text \<open>The tier index of a viewport name, in the order xs, sm, md, lg, xl, 4k.\<close>

definition tierIndex :: "string \<Rightarrow> nat" where
  "tierIndex n =
     (if n = ''xs'' then 0 else if n = ''sm'' then 1 else if n = ''md'' then 2
      else if n = ''lg'' then 3 else if n = ''xl'' then 4 else 5)"

text \<open>The five categories: mobile, tablet, small desktop, large desktop below 4K, 4K.\<close>

definition categories :: "viewport_state \<Rightarrow> bool list" where
  "categories vs =
     [isMobile vs, isTablet vs, isSmallDesktop vs, isLargeDesktop vs \<and> \<not> is4K vs, is4K vs]"

definition exactlyOne :: "bool list \<Rightarrow> bool" where
  "exactlyOne bs = (length (filter (\<lambda>b. b) bs) = 1)"

definition derivedFromWidth :: "int \<Rightarrow> viewport_state \<Rightarrow> bool" where
  "derivedFromWidth w vs =
     (isMobile vs = (w < 576) \<and>
      isTablet vs = (576 \<le> w \<and> w < 992) \<and>
      isDesktop vs = (992 \<le> w) \<and>
      isSmallDesktop vs = (992 \<le> w \<and> w < 1200) \<and>
      isLargeDesktop vs = (1200 \<le> w) \<and>
      is4K vs = (1920 \<le> w))"

text \<open>What one notification does to the page: the subscriber runs, and an exception it
  throws is written on the console. All subscribers: one after the other, in the order of
  the list.\<close>

definition notifyOne :: "string \<Rightarrow> viewport_state \<Rightarrow> callback \<Rightarrow> page \<Rightarrow> page" where
  "notifyOne event state callback p =
     (case callback event state p of
        (Normal, p') \<Rightarrow> p'
      | (Throw e, p') \<Rightarrow>
          p'\<lparr>console := console p' @ [ConsoleError ''Error in responsive listener:'' e]\<rparr>)"

definition notifyAll :: "string \<Rightarrow> viewport_state \<Rightarrow> callback list \<Rightarrow> page \<Rightarrow> page" where
  "notifyAll event state callbacks p = foldl (\<lambda>q callback. notifyOne event state callback q) p callbacks"

text \<open>Wheel events closer than \<open>wait\<close> to each other, in the order of their times.\<close>

fun burst :: "nat \<Rightarrow> nat list \<Rightarrow> bool" where
  "burst wait [] = True"
| "burst wait [t] = True"
| "burst wait (t # t' # ts) = (t \<le> t' \<and> t' < t + wait \<and> burst wait (t' # ts))"

text \<open>One wrapper is armed: one timer is pending, and it is the one that the wrapper's
  \<open>timeout\<close> names.\<close>

definition armedOne :: "nat \<Rightarrow> 'a \<Rightarrow> nat \<Rightarrow> ('a, 's) timed \<Rightarrow> bool" where
  "armedOne due args k d =
     (case timeout d k of
        None \<Rightarrow> False
      | Some i \<Rightarrow> pendingTimers d = [(i, due, k, args)])"

text \<open>Two wrappers are armed: two timers are pending, due at the same time and with the
  same arguments, and they are the ones that the \<open>timeout\<close> variables of the two
  wrappers name.\<close>

definition armed :: "nat \<Rightarrow> 'a \<Rightarrow> nat \<Rightarrow> nat \<Rightarrow> ('a, 's) timed \<Rightarrow> bool" where
  "armed due args k0 k1 d =
     (case (timeout d k0, timeout d k1) of
        (Some i0, Some i1) \<Rightarrow>
          pendingTimers d = [(i0, due, k0, args), (i1, due, k1, args)] \<and>
          i0 < i1 \<and> i1 < nextTimerId d
      | _ \<Rightarrow> False)"

text \<open>What one \<open>init\<close> registers with the platform.\<close>

definition registrations :: "nat \<Rightarrow> (string \<times> handler) list" where
  "registrations k =
     [(''resize'', OnResize), (''orientationchange'', OnOrientationChange),
      (''visibilitychange'', OnVisibilityChange), (''wheel'', DebouncedZoom k)]"

section \<open>Auxiliary notions\<close>

text \<open>Writing to one element, and to each element of a list in turn.\<close>

definition upd :: "nat \<Rightarrow> (element \<Rightarrow> element) \<Rightarrow> page \<Rightarrow> page" where
  "upd i f p = put_nodes ((nodes p)[i := f (nodes p ! i)]) p"

definition sweep :: "nat list \<Rightarrow> (element \<Rightarrow> element) \<Rightarrow> page \<Rightarrow> page" where
  "sweep targets f p = fold (\<lambda>i. upd i f) targets p"

text \<open>Two pages on which the selectors of the adjustment pass select the same
  elements: same parents, and the same classes but for \<open>modal-dialog-scrollable\<close>,
  the one class the pass adds or removes.\<close>

definition sameSelection :: "page \<Rightarrow> page \<Rightarrow> bool" where
  "sameSelection p q =
     (length (nodes p) = length (nodes q) \<and>
      (\<forall>i < length (nodes p).
         parent (nodes q ! i) = parent (nodes p ! i) \<and>
         (\<forall>c. c \<noteq> ''modal-dialog-scrollable'' \<longrightarrow>
            (c \<in> set (classList (nodes q ! i))) = (c \<in> set (classList (nodes p ! i))))))"

definition classSelectors :: "selector list \<Rightarrow> bool" where
  "classSelectors sels =
     (\<forall>x \<in> set sels. \<exists>c. x = Class c \<and> c \<noteq> ''modal-dialog-scrollable'')"

definition harmless :: "(element \<Rightarrow> element) \<Rightarrow> bool" where
  "harmless f =
     (\<forall>e. parent (f e) = parent e \<and>
        (\<forall>c. c \<noteq> ''modal-dialog-scrollable'' \<longrightarrow>
           (c \<in> set (classList (f e))) = (c \<in> set (classList e))))"

text \<open>What each procedure of the pass writes, and to which elements.\<close>

definition logoStyle :: "viewport_state \<Rightarrow> element \<Rightarrow> element" where
  "logoStyle vs =
     setStyle ''maxHeight''
       (if isMobile vs then ''50px'' else if isTablet vs then ''70px'' else ''85px'')"

definition chartStyle :: "viewport_state \<Rightarrow> element \<Rightarrow> element" where
  "chartStyle vs =
     setStyle ''maxHeight''
       (if isMobile vs then ''50vh'' else if isTablet vs then ''60vh'' else ''70vh'')"

definition tableStyle :: "viewport_state \<Rightarrow> element \<Rightarrow> element" where
  "tableStyle vs = setStyle ''fontSize'' (if isMobile vs then ''0.85rem'' else ''1rem'')"

definition modalStyle :: "viewport_state \<Rightarrow> element \<Rightarrow> element" where
  "modalStyle vs =
     (if isMobile vs then setStyle ''margin'' ''0.5rem'' \<circ> classList_add ''modal-dialog-scrollable''
      else setStyle ''margin'' ''1.75rem auto'' \<circ> classList_remove [''modal-dialog-scrollable''])"

definition logoTargets :: "page \<Rightarrow> nat list" where
  "logoTargets p =
     (case querySelector [Class ''ubc-logo''] p of None \<Rightarrow> [] | Some i \<Rightarrow> [i]) @
     (case querySelector [Class ''ubc-facilities-logo''] p of None \<Rightarrow> [] | Some i \<Rightarrow> [i])"

definition chartTargets :: "page \<Rightarrow> nat list" where
  "chartTargets p = querySelectorAll
     [Class ''chart-img'', Class ''responsive-iframe'', Class ''chart-container''] p"

definition containersOf :: "page \<Rightarrow> nat list \<Rightarrow> nat list" where
  "containersOf p tables = concat (map (\<lambda>t. case table_container p t of None \<Rightarrow> [] | Some c \<Rightarrow> [c]) tables)"

definition tableTargets :: "page \<Rightarrow> nat list" where
  "tableTargets p = containersOf p (querySelectorAll [Class ''asset-table''] p)"

definition modalTargets :: "page \<Rightarrow> nat list" where
  "modalTargets p = querySelectorAll [Class ''modal-dialog''] p"

definition composite ::
  "viewport_state \<Rightarrow> bool \<Rightarrow> bool \<Rightarrow> bool \<Rightarrow> bool \<Rightarrow> element \<Rightarrow> element" where
  "composite vs a b c d e =
     (if d then modalStyle vs else id)
       ((if c then tableStyle vs else id)
          ((if b then chartStyle vs else id)
             ((if a then logoStyle vs else id) e)))"

definition passOn ::
  "nat list \<Rightarrow> nat list \<Rightarrow> nat list \<Rightarrow> nat list \<Rightarrow> viewport_state \<Rightarrow> page \<Rightarrow> page" where
  "passOn L C T M vs p =
     sweep M (modalStyle vs) (sweep T (tableStyle vs)
       (sweep C (chartStyle vs) (sweep L (logoStyle vs) p)))"

text \<open>The states that the handlers leave.\<close>

definition resized :: "sys \<Rightarrow> sys" where
  "resized s =
     (let s1 = snd (updateViewportState (innerWidth (window s)) (innerHeight (window s)) s)
      in s1\<lparr>thePage := notifyAll ''resize'' (viewportState s1) (listeners s)
             (snd (applyResponsiveAdjustments (viewportState s1) (thePage s1)))\<rparr>)"

definition afterMain :: "sys \<Rightarrow> sys" where
  "afterMain s =
     snd (in_page (console_log ''Responsive Design System Loaded'')
       (snd (ImageOptimizer_init (snd (PerformanceMonitor_init (snd (TouchManager_init
          (snd (init s)))))))))"

definition afterForm :: "sys \<Rightarrow> sys" where
  "afterForm s = snd (enhanceFormResponsiveness (snd (init s)))"


definition currentZoom :: "sys \<Rightarrow> int" where
  "currentZoom s = zoomPercent (window s)"

section \<open>Statements: basic facts\<close>

lemma block_Cons:
  "block (c # cs) s = (if fst (c s) = Normal then block cs (snd (c s)) else c s)"
proof (cases "c s")
  case (Pair r s')
  then show ?thesis by (cases r) simp_all
qed

lemma block_modify: "block (modify f # cs) s = block cs (f s)"
  by (simp add: block_Cons modify_def)

lemma block_single: "block [c] s = (c s :: completion \<times> 's)"
proof (cases "c s")
  case (Pair r s')
  then show ?thesis by (cases r) simp_all
qed

declare block.simps(2) [simp del]

lemma in_page_modify: "in_page (modify f) s = (Normal, s\<lparr>thePage := f (thePage s)\<rparr>)"
  by (simp add: in_page_def modify_def)

lemma in_page_on_root:
  "in_page (on_root f) s =
     (Normal, s\<lparr>thePage := (thePage s)\<lparr>documentElement := f (documentElement (thePage s))\<rparr>\<rparr>)"
  by (simp add: on_root_def in_page_modify)

section \<open>The viewport state and its name\<close>

lemma updateViewportClass_Normal: "fst (updateViewportClass s) = Normal"
  by (simp add: updateViewportClass_def block_Cons in_page_on_root)

lemma updateViewportClass_frame:
  "snd (updateViewportClass s) = s\<lparr>thePage := thePage (snd (updateViewportClass s))\<rparr>"
  by (simp add: updateViewportClass_def block_Cons in_page_on_root)

lemma updateViewportClass_elements:
  "elements (thePage (snd (updateViewportClass s))) = elements (thePage s)"
  "console (thePage (snd (updateViewportClass s))) = console (thePage s)"
  by (simp_all add: updateViewportClass_def block_Cons in_page_on_root)

lemma updateViewportState_eq:
  "updateViewportState w h s =
     (Normal, (s\<lparr>viewportState := breakpoints w h (viewportState s)\<rparr>)
        \<lparr>thePage := thePage (snd (updateViewportClass
            (s\<lparr>viewportState := breakpoints w h (viewportState s)\<rparr>)))\<rparr>)"
proof -
  let ?s1 = "s\<lparr>viewportState := breakpoints w h (viewportState s)\<rparr>"
  have "updateViewportState w h s = updateViewportClass ?s1"
    by (simp add: updateViewportState_def block_modify breakpoints_def block_single)
  moreover have "updateViewportClass ?s1 = (Normal, snd (updateViewportClass ?s1))"
    using updateViewportClass_Normal [of ?s1] by (simp add: prod_eq_iff)
  ultimately show ?thesis
    using updateViewportClass_frame [of ?s1] by simp
qed

lemma viewportState_updateViewportState:
  "viewportState (snd (updateViewportState w h s)) = breakpoints w h (viewportState s)"
  by (simp add: updateViewportState_eq)

lemma name_after_update:
  "getViewportName (snd (updateViewportState w h s)) =
     (if w \<ge> 1920 then ''4k'' else if w \<ge> 1200 then ''xl'' else if w \<ge> 992 then ''lg''
      else if w \<ge> 576 then ''sm'' else ''xs'')"
  by (simp add: getViewportName_def viewportState_updateViewportState breakpoints_def)

lemma tier_after_update:
  "tierIndex (getViewportName (snd (updateViewportState w h s))) =
     (if w \<ge> 1920 then 5 else if w \<ge> 1200 then 4 else if w \<ge> 992 then 3
      else if w \<ge> 576 then 1 else 0)"
  by (simp add: name_after_update tierIndex_def)

lemma derived_exactlyOne: "derivedFromWidth w vs \<Longrightarrow> exactlyOne (categories vs)"
  by (auto simp: derivedFromWidth_def exactlyOne_def categories_def)

lemma derived_initial: "derivedFromWidth (innerWidth win) (initialViewportState win)"
  by (simp add: derivedFromWidth_def initialViewportState_def)

lemma derived_update:
  "derivedFromWidth w (viewportState (snd (updateViewportState w h s)))"
  by (simp add: derivedFromWidth_def viewportState_updateViewportState breakpoints_def)

text \<open>
  C1, as amended. The name computed from the state derived from a width \<open>w\<close> is: 575
  gives xs, 576 and 991 give sm, 992 and 1199 give lg, 1200 and 1919 give xl, 1920 gives
  4k; a width exactly at a threshold belongs to the higher category. This holds after
  \<open>updateViewportState\<close> and for the state the script builds when it loads.
\<close>

theorem viewport_name_boundaries:
  "getViewportName (snd (updateViewportState 575 h s)) = ''xs'' \<and>
   getViewportName (snd (updateViewportState 576 h s)) = ''sm'' \<and>
   getViewportName (snd (updateViewportState 991 h s)) = ''sm'' \<and>
   getViewportName (snd (updateViewportState 992 h s)) = ''lg'' \<and>
   getViewportName (snd (updateViewportState 1199 h s)) = ''lg'' \<and>
   getViewportName (snd (updateViewportState 1200 h s)) = ''xl'' \<and>
   getViewportName (snd (updateViewportState 1919 h s)) = ''xl'' \<and>
   getViewportName (snd (updateViewportState 1920 h s)) = ''4k'' \<and>
   getViewportName (loaded (win\<lparr>innerWidth := 575\<rparr>) p ls) = ''xs'' \<and>
   getViewportName (loaded (win\<lparr>innerWidth := 576\<rparr>) p ls) = ''sm'' \<and>
   getViewportName (loaded (win\<lparr>innerWidth := 991\<rparr>) p ls) = ''sm'' \<and>
   getViewportName (loaded (win\<lparr>innerWidth := 992\<rparr>) p ls) = ''lg'' \<and>
   getViewportName (loaded (win\<lparr>innerWidth := 1199\<rparr>) p ls) = ''lg'' \<and>
   getViewportName (loaded (win\<lparr>innerWidth := 1200\<rparr>) p ls) = ''xl'' \<and>
   getViewportName (loaded (win\<lparr>innerWidth := 1919\<rparr>) p ls) = ''xl'' \<and>
   getViewportName (loaded (win\<lparr>innerWidth := 1920\<rparr>) p ls) = ''4k''"
proof -
  have "getViewportName (loaded (win\<lparr>innerWidth := 575\<rparr>) p ls) = ''xs''"
    and "getViewportName (loaded (win\<lparr>innerWidth := 576\<rparr>) p ls) = ''sm''"
    and "getViewportName (loaded (win\<lparr>innerWidth := 991\<rparr>) p ls) = ''sm''"
    and "getViewportName (loaded (win\<lparr>innerWidth := 992\<rparr>) p ls) = ''lg''"
    and "getViewportName (loaded (win\<lparr>innerWidth := 1199\<rparr>) p ls) = ''lg''"
    and "getViewportName (loaded (win\<lparr>innerWidth := 1200\<rparr>) p ls) = ''xl''"
    and "getViewportName (loaded (win\<lparr>innerWidth := 1919\<rparr>) p ls) = ''xl''"
    and "getViewportName (loaded (win\<lparr>innerWidth := 1920\<rparr>) p ls) = ''4k''"
    by (simp_all add: getViewportName_def loaded_def initialViewportState_def)
  then show ?thesis
    by (simp add: name_after_update)
qed

text \<open>C1 as stated fails: the state derived from the width 992 is named lg, not md.\<close>

theorem viewport_name_992_not_md:
  "getViewportName (snd (updateViewportState 992 800
      (loaded (sampleWindow 1000 800) (samplePage []) []))) \<noteq> ''md''"
  by (simp add: name_after_update)

text \<open>
  C6. For every state \<open>getViewportName\<close> returns one of xs, sm, md, lg, xl, 4k, chosen
  with the precedence 4K, large desktop, small desktop, desktop, tablet, else xs; and on
  the states derived from widths, a larger width never has a smaller tier index.
\<close>

theorem viewport_name_total_monotone:
  "getViewportName s \<in> {''xs'', ''sm'', ''md'', ''lg'', ''xl'', ''4k''} \<and>
   (is4K (viewportState s) \<longrightarrow> getViewportName s = ''4k'') \<and>
   (\<not> is4K (viewportState s) \<and> isLargeDesktop (viewportState s) \<longrightarrow>
      getViewportName s = ''xl'') \<and>
   (\<not> is4K (viewportState s) \<and> \<not> isLargeDesktop (viewportState s) \<and>
    isSmallDesktop (viewportState s) \<longrightarrow> getViewportName s = ''lg'') \<and>
   (\<not> is4K (viewportState s) \<and> \<not> isLargeDesktop (viewportState s) \<and>
    \<not> isSmallDesktop (viewportState s) \<and> isDesktop (viewportState s) \<longrightarrow>
      getViewportName s = ''md'') \<and>
   (\<not> is4K (viewportState s) \<and> \<not> isLargeDesktop (viewportState s) \<and>
    \<not> isSmallDesktop (viewportState s) \<and> \<not> isDesktop (viewportState s) \<and>
    isTablet (viewportState s) \<longrightarrow> getViewportName s = ''sm'') \<and>
   (\<not> is4K (viewportState s) \<and> \<not> isLargeDesktop (viewportState s) \<and>
    \<not> isSmallDesktop (viewportState s) \<and> \<not> isDesktop (viewportState s) \<and>
    \<not> isTablet (viewportState s) \<longrightarrow> getViewportName s = ''xs'') \<and>
   (w \<le> w' \<longrightarrow>
      tierIndex (getViewportName (snd (updateViewportState w h s1)))
        \<le> tierIndex (getViewportName (snd (updateViewportState w' h' s2))))"
proof -
  have "getViewportName s \<in> {''xs'', ''sm'', ''md'', ''lg'', ''xl'', ''4k''}"
    by (simp add: getViewportName_def)
  moreover have "w \<le> w' \<longrightarrow>
      tierIndex (getViewportName (snd (updateViewportState w h s1)))
        \<le> tierIndex (getViewportName (snd (updateViewportState w' h' s2)))"
    unfolding tier_after_update by simp
  ultimately show ?thesis
    by (simp add: getViewportName_def)
qed

theorem viewport_name_total_monotone_witness:
  "(500::int) \<le> 1300 \<and>
   tierIndex (getViewportName (snd (updateViewportState 500 800 wideState))) = 0 \<and>
   tierIndex (getViewportName (snd (updateViewportState 1300 800 wideState))) = 4 \<and>
   is4K (viewportState (snd (updateViewportState 2000 800 wideState))) \<and>
   getViewportName (snd (updateViewportState 2000 800 wideState)) = ''4k'' \<and>
   \<not> is4K (viewportState (snd (updateViewportState 1300 800 wideState))) \<and>
   isLargeDesktop (viewportState (snd (updateViewportState 1300 800 wideState))) \<and>
   getViewportName (snd (updateViewportState 1300 800 wideState)) = ''xl'' \<and>
   \<not> isLargeDesktop (viewportState wideState) \<and>
   isSmallDesktop (viewportState wideState) \<and>
   getViewportName wideState = ''lg'' \<and>
   \<not> isSmallDesktop (viewportState desktopOnlyState) \<and>
   isDesktop (viewportState desktopOnlyState) \<and>
   getViewportName desktopOnlyState = ''md'' \<and>
   \<not> isDesktop (viewportState (snd (updateViewportState 700 800 wideState))) \<and>
   isTablet (viewportState (snd (updateViewportState 700 800 wideState))) \<and>
   getViewportName (snd (updateViewportState 700 800 wideState)) = ''sm'' \<and>
   \<not> isTablet (viewportState (snd (updateViewportState 500 800 wideState))) \<and>
   getViewportName (snd (updateViewportState 500 800 wideState)) = ''xs''"
proof -
  have wide: "viewportState wideState = initialViewportState (sampleWindow 1000 800)"
    by (simp add: wideState_def loaded_def)
  have only: "viewportState desktopOnlyState =
      (initialViewportState (sampleWindow 1000 800))\<lparr>isSmallDesktop := False\<rparr>"
    by (simp add: desktopOnlyState_def wide)
  have fields: "is4K (viewportState (snd (updateViewportState 2000 800 wideState)))"
    "\<not> is4K (viewportState (snd (updateViewportState 1300 800 wideState)))"
    "isLargeDesktop (viewportState (snd (updateViewportState 1300 800 wideState)))"
    "\<not> is4K (viewportState wideState)"
    "\<not> isLargeDesktop (viewportState wideState)"
    "isSmallDesktop (viewportState wideState)"
    "\<not> is4K (viewportState desktopOnlyState)"
    "\<not> isLargeDesktop (viewportState desktopOnlyState)"
    "\<not> isSmallDesktop (viewportState desktopOnlyState)"
    "isDesktop (viewportState desktopOnlyState)"
    "\<not> is4K (viewportState (snd (updateViewportState 700 800 wideState)))"
    "\<not> isLargeDesktop (viewportState (snd (updateViewportState 700 800 wideState)))"
    "\<not> isSmallDesktop (viewportState (snd (updateViewportState 700 800 wideState)))"
    "\<not> isDesktop (viewportState (snd (updateViewportState 700 800 wideState)))"
    "isTablet (viewportState (snd (updateViewportState 700 800 wideState)))"
    "\<not> is4K (viewportState (snd (updateViewportState 500 800 wideState)))"
    "\<not> isLargeDesktop (viewportState (snd (updateViewportState 500 800 wideState)))"
    "\<not> isSmallDesktop (viewportState (snd (updateViewportState 500 800 wideState)))"
    "\<not> isDesktop (viewportState (snd (updateViewportState 500 800 wideState)))"
    "\<not> isTablet (viewportState (snd (updateViewportState 500 800 wideState)))"
    by (simp_all add: viewportState_updateViewportState breakpoints_def wide only
        initialViewportState_def sampleWindow_def)
  have tiers: "tierIndex (getViewportName (snd (updateViewportState 500 800 wideState))) = 0"
    "tierIndex (getViewportName (snd (updateViewportState 1300 800 wideState))) = 4"
    by (simp_all add: tier_after_update)
  from viewport_name_total_monotone [of "snd (updateViewportState 2000 800 wideState)"
      500 1300 800 wideState 800 wideState] fields
  have n4k: "getViewportName (snd (updateViewportState 2000 800 wideState)) = ''4k''"
    by blast
  from viewport_name_total_monotone [of "snd (updateViewportState 1300 800 wideState)"] fields
  have nxl: "getViewportName (snd (updateViewportState 1300 800 wideState)) = ''xl''"
    by blast
  from viewport_name_total_monotone [of wideState] fields
  have nlg: "getViewportName wideState = ''lg''"
    by blast
  from viewport_name_total_monotone [of desktopOnlyState] fields
  have nmd: "getViewportName desktopOnlyState = ''md''"
    by blast
  from viewport_name_total_monotone [of "snd (updateViewportState 700 800 wideState)"] fields
  have nsm: "getViewportName (snd (updateViewportState 700 800 wideState)) = ''sm''"
    by blast
  from viewport_name_total_monotone [of "snd (updateViewportState 500 800 wideState)"] fields
  have nxs: "getViewportName (snd (updateViewportState 500 800 wideState)) = ''xs''"
    by blast
  show ?thesis
    using fields tiers n4k nxl nlg nmd nsm nxs by simp
qed

text \<open>
  C7. In the state built when the script loads and after every \<open>updateViewportState\<close>,
  the breakpoint fields are the comparisons of the width with 576, 992, 1200 and 1920,
  exactly one of the five categories holds, and \<open>isDesktop\<close> holds whenever
  \<open>isSmallDesktop\<close> or \<open>isLargeDesktop\<close> does.
\<close>

theorem breakpoint_categories:
  "derivedFromWidth (innerWidth win) (initialViewportState win) \<and>
   exactlyOne (categories (initialViewportState win)) \<and>
   (isSmallDesktop (initialViewportState win) \<or> isLargeDesktop (initialViewportState win)
      \<longrightarrow> isDesktop (initialViewportState win)) \<and>
   derivedFromWidth w (viewportState (snd (updateViewportState w h s))) \<and>
   exactlyOne (categories (viewportState (snd (updateViewportState w h s)))) \<and>
   (isSmallDesktop (viewportState (snd (updateViewportState w h s))) \<or>
    isLargeDesktop (viewportState (snd (updateViewportState w h s)))
      \<longrightarrow> isDesktop (viewportState (snd (updateViewportState w h s))))"
proof -
  have i: "derivedFromWidth (innerWidth win) (initialViewportState win)"
    by (rule derived_initial)
  have u: "derivedFromWidth w (viewportState (snd (updateViewportState w h s)))"
    by (rule derived_update)
  from i have "isSmallDesktop (initialViewportState win) \<or> isLargeDesktop (initialViewportState win)
      \<longrightarrow> isDesktop (initialViewportState win)"
    by (auto simp: derivedFromWidth_def)
  moreover from u have "isSmallDesktop (viewportState (snd (updateViewportState w h s))) \<or>
    isLargeDesktop (viewportState (snd (updateViewportState w h s)))
      \<longrightarrow> isDesktop (viewportState (snd (updateViewportState w h s)))"
    by (auto simp: derivedFromWidth_def)
  ultimately show ?thesis
    using i u derived_exactlyOne by blast
qed

theorem breakpoint_categories_witness:
  "isLargeDesktop (initialViewportState (sampleWindow 1300 800)) \<and>
   isDesktop (initialViewportState (sampleWindow 1300 800)) \<and>
   exactlyOne (categories (initialViewportState (sampleWindow 1300 800))) \<and>
   categories (initialViewportState (sampleWindow 1300 800)) = [False, False, False, True, False] \<and>
   isSmallDesktop (viewportState (snd (updateViewportState 1000 800 wideState))) \<and>
   isDesktop (viewportState (snd (updateViewportState 1000 800 wideState))) \<and>
   exactlyOne (categories (viewportState (snd (updateViewportState 1000 800 wideState)))) \<and>
   categories (viewportState (snd (updateViewportState 1000 800 wideState))) =
     [False, False, True, False, False]"
proof -
  let ?i = "initialViewportState (sampleWindow 1300 800)"
  let ?u = "viewportState (snd (updateViewportState 1000 800 wideState))"
  have w: "innerWidth (sampleWindow 1300 800) = 1300"
    by (simp add: sampleWindow_def)
  from breakpoint_categories [of "sampleWindow 1300 800" 1000 800 wideState]
  have di: "derivedFromWidth 1300 ?i" and ei: "exactlyOne (categories ?i)"
    and du: "derivedFromWidth 1000 ?u" and eu: "exactlyOne (categories ?u)"
    by (simp_all add: w)
  from di have "isLargeDesktop ?i" "isDesktop ?i" "categories ?i = [False, False, False, True, False]"
    by (simp_all add: derivedFromWidth_def categories_def)
  moreover from du have "isSmallDesktop ?u" "isDesktop ?u"
    "categories ?u = [False, False, True, False, False]"
    by (simp_all add: derivedFromWidth_def categories_def)
  ultimately show ?thesis
    using ei eu by simp
qed

text \<open>
  C9. On a state derived from a width, \<open>getViewportName\<close> never returns md: there
  \<open>isDesktop\<close> holds exactly when \<open>isSmallDesktop\<close> or \<open>isLargeDesktop\<close> does, and
  both come first. The name is one of xs, sm, lg, xl, 4k.
\<close>

theorem viewport_name_never_md:
  "getViewportName (snd (updateViewportState w h s)) \<noteq> ''md'' \<and>
   getViewportName (snd (updateViewportState w h s)) \<in> {''xs'', ''sm'', ''lg'', ''xl'', ''4k''} \<and>
   isDesktop (viewportState (snd (updateViewportState w h s))) =
     (isSmallDesktop (viewportState (snd (updateViewportState w h s))) \<or>
      isLargeDesktop (viewportState (snd (updateViewportState w h s)))) \<and>
   getViewportName (loaded win p ls) \<noteq> ''md'' \<and>
   getViewportName (loaded win p ls) \<in> {''xs'', ''sm'', ''lg'', ''xl'', ''4k''}"
proof -
  have "getViewportName (loaded win p ls) \<noteq> ''md''"
    and "getViewportName (loaded win p ls) \<in> {''xs'', ''sm'', ''lg'', ''xl'', ''4k''}"
    by (auto simp: getViewportName_def loaded_def initialViewportState_def)
  moreover have "isDesktop (viewportState (snd (updateViewportState w h s))) =
     (isSmallDesktop (viewportState (snd (updateViewportState w h s))) \<or>
      isLargeDesktop (viewportState (snd (updateViewportState w h s))))"
    by (auto simp: viewportState_updateViewportState breakpoints_def)
  ultimately show ?thesis
    by (simp add: name_after_update)
qed

section \<open>Notifications\<close>

lemma guarded_callback:
  "try_catch (in_page (callback event state))
     (\<lambda>e. in_page (console_error ''Error in responsive listener:'' e)) s =
   (Normal, s\<lparr>thePage := notifyOne event state callback (thePage s)\<rparr>)"
proof (cases "callback event state (thePage s)")
  case (Pair r p')
  then show ?thesis
    by (cases r)
      (simp_all add: try_catch_def in_page_def notifyOne_def console_error_def modify_def)
qed

lemma forEach_guarded:
  "forEach cbs (\<lambda>callback. try_catch (in_page (callback event state))
     (\<lambda>e. in_page (console_error ''Error in responsive listener:'' e))) s =
   (Normal, s\<lparr>thePage := notifyAll event state cbs (thePage s)\<rparr>)"
proof (induction cbs arbitrary: s)
  case Nil
  show ?case by (simp add: forEach_def notifyAll_def)
next
  case (Cons cb cbs)
  have "forEach (cb # cbs) (\<lambda>callback. try_catch (in_page (callback event state))
     (\<lambda>e. in_page (console_error ''Error in responsive listener:'' e))) s =
    forEach cbs (\<lambda>callback. try_catch (in_page (callback event state))
     (\<lambda>e. in_page (console_error ''Error in responsive listener:'' e)))
       (s\<lparr>thePage := notifyOne event state cb (thePage s)\<rparr>)"
    by (simp add: forEach_def block_Cons guarded_callback)
  then show ?case
    by (simp add: Cons.IH notifyAll_def)
qed

lemma triggerListeners_eq:
  "triggerListeners event state s =
     (Normal, s\<lparr>thePage := notifyAll event state (listeners s) (thePage s)\<rparr>)"
  by (simp add: triggerListeners_def forEach_guarded)

lemma notifyAll_append:
  "notifyAll event state (xs @ ys) p = notifyAll event state ys (notifyAll event state xs p)"
  by (simp add: notifyAll_def)

lemma notifyAll_Cons:
  "notifyAll event state (cb # cbs) p = notifyAll event state cbs (notifyOne event state cb p)"
  by (simp add: notifyAll_def)

lemma notifyAll_Nil: "notifyAll event state [] p = p"
  by (simp add: notifyAll_def)

lemma subscribe_eq: "subscribe callback s = (Normal, s\<lparr>listeners := listeners s @ [callback]\<rparr>)"
  by (simp add: subscribe_def modify_def)

lemma subscribed_fields:
  "listeners (subscribed s callbacks) = listeners s @ callbacks"
  "thePage (subscribed s callbacks) = thePage s"
  "viewportState (subscribed s callbacks) = viewportState s"
  by (induction callbacks arbitrary: s) (simp_all add: subscribed_def subscribe_eq)

text \<open>
  C3. \<open>subscribe\<close> appends to the registry, so the registry lists the callbacks in the
  order of their subscription. A notification runs every registered callback once, in
  that order, with the event name and the state; a callback that throws has its exception
  written on the console, the callbacks after it still run, and \<open>triggerListeners\<close>
  itself completes normally.
\<close>

theorem notify_isolates_subscribers:
  "subscribe callback s = (Normal, s\<lparr>listeners := listeners s @ [callback]\<rparr>) \<and>
   listeners (subscribed s callbacks) = listeners s @ callbacks \<and>
   triggerListeners event state (subscribed s callbacks) =
     (Normal, (subscribed s callbacks)\<lparr>thePage :=
        notifyAll event state (listeners s @ callbacks) (thePage s)\<rparr>) \<and>
   triggerListeners event state s =
     (Normal, s\<lparr>thePage := notifyAll event state (listeners s) (thePage s)\<rparr>) \<and>
   (listeners s = before @ callback # after \<longrightarrow>
      thePage (snd (triggerListeners event state s)) =
        notifyAll event state after
          (notifyOne event state callback (notifyAll event state before (thePage s)))) \<and>
   (callback event state p = (Throw e, p') \<longrightarrow>
      notifyOne event state callback p =
        p'\<lparr>console := console p' @ [ConsoleError ''Error in responsive listener:'' e]\<rparr>) \<and>
   (callback event state p = (Normal, p') \<longrightarrow> notifyOne event state callback p = p')"
proof -
  have "listeners s = before @ callback # after \<longrightarrow>
      thePage (snd (triggerListeners event state s)) =
        notifyAll event state after
          (notifyOne event state callback (notifyAll event state before (thePage s)))"
    by (simp add: triggerListeners_eq notifyAll_append notifyAll_Cons)
  moreover have "callback event state p = (Throw e, p') \<longrightarrow>
      notifyOne event state callback p =
        p'\<lparr>console := console p' @ [ConsoleError ''Error in responsive listener:'' e]\<rparr>"
    and "callback event state p = (Normal, p') \<longrightarrow> notifyOne event state callback p = p'"
    by (simp_all add: notifyOne_def)
  moreover have "triggerListeners event state (subscribed s callbacks) =
     (Normal, (subscribed s callbacks)\<lparr>thePage :=
        notifyAll event state (listeners s @ callbacks) (thePage s)\<rparr>)"
    by (simp add: triggerListeners_eq subscribed_fields)
  ultimately show ?thesis
    using triggerListeners_eq subscribe_eq subscribed_fields(1) by blast
qed

theorem notify_isolates_subscribers_witness:
  "threeSubscribers =
     snd (subscribe (probe ''c'') (snd (subscribe (faulty ''b'') (snd (subscribe (probe ''a'')
       (loaded (sampleWindow 1000 800) (samplePage []) [])))))) \<and>
   listeners threeSubscribers = [probe ''a''] @ faulty ''b'' # [probe ''c''] \<and>
   faulty ''b'' ''resize'' (viewportState threeSubscribers) (samplePage []) =
     (Throw (Thrown ''b''), (samplePage [])\<lparr>console := [ConsoleLog ''b:resize'']\<rparr>) \<and>
   notifyOne ''resize'' (viewportState threeSubscribers) (faulty ''b'') (samplePage []) =
     (samplePage [])\<lparr>console := [ConsoleLog ''b:resize'',
        ConsoleError ''Error in responsive listener:'' (Thrown ''b'')]\<rparr> \<and>
   probe ''a'' ''resize'' (viewportState threeSubscribers) (samplePage []) =
     (Normal, (samplePage [])\<lparr>console := [ConsoleLog ''a:resize:wide'']\<rparr>) \<and>
   notifyOne ''resize'' (viewportState threeSubscribers) (probe ''a'') (samplePage []) =
     (samplePage [])\<lparr>console := [ConsoleLog ''a:resize:wide'']\<rparr> \<and>
   fst (triggerListeners ''resize'' (viewportState threeSubscribers) threeSubscribers) = Normal \<and>
   console (thePage (snd (triggerListeners ''resize'' (viewportState threeSubscribers)
     threeSubscribers))) =
     [ConsoleLog ''a:resize:wide'', ConsoleLog ''b:resize'',
      ConsoleError ''Error in responsive listener:'' (Thrown ''b''), ConsoleLog ''c:resize:wide'']"
proof -
  have subs: "listeners threeSubscribers = [probe ''a''] @ faulty ''b'' # [probe ''c'']"
    using notify_isolates_subscribers [where s = "loaded (sampleWindow 1000 800) (samplePage []) []"
        and callbacks = "[probe ''a'', faulty ''b'', probe ''c'']"]
    by (simp add: threeSubscribers_def loaded_def)
  have pg: "thePage threeSubscribers = samplePage []"
    and wide: "\<not> isMobile (viewportState threeSubscribers)"
    by (simp_all add: threeSubscribers_def subscribed_fields loaded_def initialViewportState_def
        sampleWindow_def)
  have throws: "faulty ''b'' ''resize'' (viewportState threeSubscribers) (samplePage []) =
     (Throw (Thrown ''b''), (samplePage [])\<lparr>console := [ConsoleLog ''b:resize'']\<rparr>)"
    by (simp add: faulty_def block_Cons console_log_def modify_def throw_def samplePage_def)
  have returns: "probe ''a'' ''resize'' (viewportState threeSubscribers) (samplePage []) =
     (Normal, (samplePage [])\<lparr>console := [ConsoleLog ''a:resize:wide'']\<rparr>)"
    by (simp add: probe_def wide console_log_def modify_def samplePage_def)
  have all: "console (notifyAll ''resize'' (viewportState threeSubscribers) [probe ''c'']
      (notifyOne ''resize'' (viewportState threeSubscribers) (faulty ''b'')
         (notifyAll ''resize'' (viewportState threeSubscribers) [probe ''a''] (samplePage [])))) =
     [ConsoleLog ''a:resize:wide'', ConsoleLog ''b:resize'',
      ConsoleError ''Error in responsive listener:'' (Thrown ''b''), ConsoleLog ''c:resize:wide'']"
    by (simp add: notifyAll_def notifyOne_def probe_def faulty_def wide block_Cons console_log_def
        modify_def throw_def samplePage_def)
  show ?thesis
    using notify_isolates_subscribers [where event = "''resize''"
        and state = "viewportState threeSubscribers" and s = threeSubscribers
        and before = "[probe ''a'']" and callback = "faulty ''b''" and after = "[probe ''c'']"
        and p = "samplePage []" and e = "Thrown ''b''"
        and p' = "(samplePage [])\<lparr>console := [ConsoleLog ''b:resize'']\<rparr>"]
      notify_isolates_subscribers [where event = "''resize''"
        and state = "viewportState threeSubscribers" and s = threeSubscribers
        and before = "[]" and callback = "probe ''a''" and after = "[faulty ''b'', probe ''c'']"
        and p = "samplePage []"
        and p' = "(samplePage [])\<lparr>console := [ConsoleLog ''a:resize:wide'']\<rparr>"]
      subs throws returns all
    by (simp add: pg) (simp add: threeSubscribers_def subscribed_def)
qed

section \<open>The adjustment pass\<close>

lemma on_node_Some: "on_node (Some i) f p = (Normal, upd i f p)"
  by (simp add: on_node_def modify_def upd_def)

lemma nodes_put_nodes: "ns \<noteq> [] \<Longrightarrow> nodes (put_nodes ns p) = ns"
  by (cases ns) (simp_all add: put_nodes_def nodes_def)

lemma console_put_nodes: "console (put_nodes ns p) = console p"
  by (cases ns) (simp_all add: put_nodes_def)

lemma nodes_not_Nil: "nodes p \<noteq> []"
  by (simp add: nodes_def)

lemma nodes_upd: "nodes (upd i f p) = (nodes p)[i := f (nodes p ! i)]"
  unfolding upd_def by (rule nodes_put_nodes) (simp add: nodes_not_Nil)

lemma console_upd: "console (upd i f p) = console p"
  by (simp add: upd_def console_put_nodes)

lemma page_eqI:
  fixes p q :: page
  assumes "nodes p = nodes q" "console p = console q"
  shows "p = q"
  using assms by (cases p; cases q) (simp add: nodes_def)

lemma upd_upd: "upd i g (upd i f p) = upd i (g \<circ> f) p"
proof (rule page_eqI)
  show "nodes (upd i g (upd i f p)) = nodes (upd i (g \<circ> f) p)"
    by (cases "i < length (nodes p)") (simp_all add: nodes_upd list_update_beyond)
  show "console (upd i g (upd i f p)) = console (upd i (g \<circ> f) p)"
    by (simp add: console_upd)
qed

lemma sweep_Nil: "sweep [] f p = p"
  by (simp add: sweep_def)

lemma sweep_Cons: "sweep (i # targets) f p = sweep targets f (upd i f p)"
  by (simp add: sweep_def)

lemma sweep_frame:
  "console (sweep targets f p) = console p"
  "length (nodes (sweep targets f p)) = length (nodes p)"
  by (induction targets arbitrary: p) (simp_all add: sweep_Nil sweep_Cons console_upd nodes_upd)

lemma sweep_nth:
  assumes idem: "\<And>e. f (f e) = f e" and i: "i < length (nodes p)"
  shows "nodes (sweep targets f p) ! i =
           (if i \<in> set targets then f (nodes p ! i) else nodes p ! i)"
  using i
proof (induction targets arbitrary: p)
  case Nil
  show ?case by (simp add: sweep_Nil)
next
  case (Cons j targets)
  have len: "i < length (nodes (upd j f p))"
    using Cons.prems by (simp add: nodes_upd)
  have step: "nodes (upd j f p) ! i = (if i = j then f (nodes p ! i) else nodes p ! i)"
    using Cons.prems by (simp add: nodes_upd nth_list_update)
  have "nodes (sweep (j # targets) f p) ! i =
          (if i \<in> set targets then f (nodes (upd j f p) ! i) else nodes (upd j f p) ! i)"
    using Cons.IH [OF len] by (simp add: sweep_Cons)
  also have "\<dots> = (if i \<in> set (j # targets) then f (nodes p ! i) else nodes p ! i)"
    unfolding step by (simp add: idem)
  finally show ?case .
qed

lemma forEach_sweep:
  assumes "\<And>x q. body x q = (Normal, upd x f q)"
  shows "forEach targets body p = (Normal, sweep targets f p)"
proof (induction targets arbitrary: p)
  case Nil
  show ?case by (simp add: forEach_def sweep_Nil)
next
  case (Cons x targets)
  have "forEach (x # targets) body p = forEach targets body (upd x f p)"
    by (simp add: forEach_def block_Cons assms)
  then show ?case by (simp add: Cons.IH sweep_Cons)
qed

lemma sameSelection_refl: "sameSelection p p"
  by (simp add: sameSelection_def)

lemma sameSelection_trans:
  "sameSelection p q \<Longrightarrow> sameSelection q r \<Longrightarrow> sameSelection p r"
  by (simp add: sameSelection_def)

lemma upd_length: "length (nodes (upd i f p)) = length (nodes p)"
  by (simp add: nodes_upd)

lemma upd_nth:
  "j < length (nodes p) \<Longrightarrow>
     nodes (upd i f p) ! j = (if j = i then f (nodes p ! j) else nodes p ! j)"
  by (cases "i < length (nodes p)")
    (auto simp: nodes_upd nth_list_update list_update_beyond)

lemma sameSelection_upd:
  assumes "harmless f"
  shows "sameSelection p (upd i f p)"
proof -
  have "parent (f e) = parent e" for e
    using assms by (simp add: harmless_def)
  moreover have "c \<noteq> ''modal-dialog-scrollable'' \<Longrightarrow>
      (c \<in> set (classList (f e))) = (c \<in> set (classList e))" for c e
    using assms by (simp add: harmless_def)
  ultimately show ?thesis
    by (simp add: sameSelection_def upd_length upd_nth)
qed

lemma sameSelection_sweep: "harmless f \<Longrightarrow> sameSelection p (sweep targets f p)"
proof (induction targets arbitrary: p)
  case Nil
  show ?case by (simp add: sweep_Nil sameSelection_refl)
next
  case (Cons i targets)
  show ?case
    unfolding sweep_Cons
    using sameSelection_trans [OF sameSelection_upd [OF Cons.prems] Cons.IH [OF Cons.prems]] .
qed

lemma matches_any_same:
  assumes "sameSelection p q" "classSelectors sels" "i < length (nodes p)"
  shows "matches_any (nodes q ! i) sels = matches_any (nodes p ! i) sels"
proof -
  have "matches (nodes q ! i) x = matches (nodes p ! i) x" if "x \<in> set sels" for x
  proof -
    from that assms(2) obtain c where "x = Class c" "c \<noteq> ''modal-dialog-scrollable''"
      by (auto simp: classSelectors_def)
    with assms(1,3) show ?thesis by (simp add: sameSelection_def)
  qed
  then show ?thesis
    by (simp add: matches_any_def list_ex_iff)
qed

lemma querySelectorAll_same:
  assumes "sameSelection p q" "classSelectors sels"
  shows "querySelectorAll sels q = querySelectorAll sels p"
proof -
  have len: "length (nodes q) = length (nodes p)"
    using assms(1) by (simp add: sameSelection_def)
  show ?thesis
    unfolding querySelectorAll_def len
    by (rule filter_cong) (simp_all add: matches_any_same [OF assms])
qed

lemma querySelector_same:
  "sameSelection p q \<Longrightarrow> classSelectors sels \<Longrightarrow> querySelector sels q = querySelector sels p"
  by (simp add: querySelector_def querySelectorAll_same)

lemma closest_same:
  assumes "sameSelection p q" "classSelectors sels"
  shows "closest sels q i = closest sels p i"
proof (induction i rule: less_induct)
  case (less i)
  have len: "length (nodes q) = length (nodes p)"
    using assms(1) by (simp add: sameSelection_def)
  show ?case
  proof (cases "i < length (nodes p)")
    case False
    then show ?thesis
      by (simp add: closest.simps [of sels q i] closest.simps [of sels p i] len)
  next
    case True
    have par: "parent (nodes q ! i) = parent (nodes p ! i)"
      using assms(1) True by (simp add: sameSelection_def)
    show ?thesis
    proof (cases "i = 0")
      case True
      then show ?thesis
        using \<open>i < length (nodes p)\<close>
        by (simp add: closest.simps [of sels q 0] closest.simps [of sels p 0] len
            matches_any_same [OF assms])
    next
      case False
      then have "closest sels q 0 = closest sels p 0"
        using less.IH by simp
      then show ?thesis
        using True False less.IH
        by (simp add: closest.simps [of sels q i] closest.simps [of sels p i] len par
            matches_any_same [OF assms True] split: option.split)
    qed
  qed
qed

lemma table_container_same:
  assumes "sameSelection p q"
  shows "table_container q t = table_container p t"
proof -
  have "closest [Class ''table-responsive''] q t = closest [Class ''table-responsive''] p t"
    and "closest [Class ''asset-table-container''] q t =
         closest [Class ''asset-table-container''] p t"
    using assms by (simp_all add: closest_same classSelectors_def)
  then show ?thesis
    unfolding table_container_def by (simp split: option.split)
qed

lemma adjustNavbarLogo_eq:
  "adjustNavbarLogo vs p = (Normal, sweep (logoTargets p) (logoStyle vs) p)"
  by (cases "querySelector [Class ''ubc-logo''] p";
      cases "querySelector [Class ''ubc-facilities-logo''] p")
    (simp_all add: adjustNavbarLogo_def logoTargets_def logoStyle_def on_node_Some skip_def
      block_Cons sweep_Nil sweep_Cons)

lemma adjustChartSizes_eq:
  "adjustChartSizes vs p = (Normal, sweep (chartTargets p) (chartStyle vs) p)"
  unfolding adjustChartSizes_def chartTargets_def Let_def
  by (rule forEach_sweep) (simp add: chartStyle_def on_node_Some)

lemma modal_body:
  "(if isMobile vs then block
      [on_node (Some modal) (classList_add ''modal-dialog-scrollable''),
       on_node (Some modal) (setStyle ''margin'' ''0.5rem'')]
    else block
      [on_node (Some modal) (classList_remove [''modal-dialog-scrollable'']),
       on_node (Some modal) (setStyle ''margin'' ''1.75rem auto'')]) q =
   (Normal, upd modal (modalStyle vs) q)"
  by (simp add: modalStyle_def on_node_Some block_Cons upd_upd)

lemma handleModalResponsiveness_eq:
  "handleModalResponsiveness vs p = (Normal, sweep (modalTargets p) (modalStyle vs) p)"
  unfolding handleModalResponsiveness_def modalTargets_def Let_def
  by (rule forEach_sweep) (rule modal_body)

lemma harmless_styles:
  "harmless (logoStyle vs)" "harmless (chartStyle vs)" "harmless (tableStyle vs)"
  "harmless (modalStyle vs)"
  by (auto simp: harmless_def logoStyle_def chartStyle_def tableStyle_def modalStyle_def
      setStyle_def classList_add_def classList_remove_def)

lemma table_loop:
  assumes "sameSelection p q"
  shows "forEach tables (\<lambda>table q.
           (let container = table_container q table
            in if container \<noteq> None \<and> isMobile vs then
                 on_node container (setStyle ''fontSize'' ''0.85rem'') q
               else if container \<noteq> None then
                 on_node container (setStyle ''fontSize'' ''1rem'') q
               else (Normal, q))) q =
         (Normal, sweep (containersOf p tables) (tableStyle vs) q)"
  using assms
proof (induction tables arbitrary: q)
  case Nil
  show ?case by (simp add: forEach_def containersOf_def sweep_Nil)
next
  case (Cons t tables)
  let ?body = "\<lambda>table q.
           (let container = table_container q table
            in if container \<noteq> None \<and> isMobile vs then
                 on_node container (setStyle ''fontSize'' ''0.85rem'') q
               else if container \<noteq> None then
                 on_node container (setStyle ''fontSize'' ''1rem'') q
               else (Normal, q))"
  have same: "table_container q t = table_container p t"
    using Cons.prems by (rule table_container_same)
  show ?case
  proof (cases "table_container p t")
    case None
    then have "forEach (t # tables) ?body q = forEach tables ?body q"
      using same by (simp add: forEach_def block_Cons)
    moreover have "containersOf p (t # tables) = containersOf p tables"
      using None by (simp add: containersOf_def)
    ultimately show ?thesis
      using Cons.IH [OF Cons.prems] by simp
  next
    case (Some c)
    then have "?body t q = (Normal, upd c (tableStyle vs) q)"
      using same by (simp add: on_node_Some tableStyle_def)
    then have "forEach (t # tables) ?body q = forEach tables ?body (upd c (tableStyle vs) q)"
      by (simp add: forEach_def block_Cons)
    moreover have "containersOf p (t # tables) = c # containersOf p tables"
      using Some by (simp add: containersOf_def)
    moreover have "sameSelection p (upd c (tableStyle vs) q)"
      using Cons.prems sameSelection_upd [OF harmless_styles(3)]
      by (rule sameSelection_trans)
    ultimately show ?thesis
      using Cons.IH by (simp add: sweep_Cons)
  qed
qed

lemma adjustTableDisplay_eq:
  "adjustTableDisplay vs p = (Normal, sweep (tableTargets p) (tableStyle vs) p)"
  unfolding adjustTableDisplay_def tableTargets_def
  using table_loop [OF sameSelection_refl, where p = p and vs = vs
      and tables = "querySelectorAll [Class ''asset-table''] p"]
  by simp

lemma style_idem:
  "logoStyle vs (logoStyle vs e) = logoStyle vs e"
  "chartStyle vs (chartStyle vs e) = chartStyle vs e"
  "tableStyle vs (tableStyle vs e) = tableStyle vs e"
  "modalStyle vs (modalStyle vs e) = modalStyle vs e"
  by (simp_all add: logoStyle_def chartStyle_def tableStyle_def modalStyle_def
      setStyle_def classList_add_def classList_remove_def)

lemma composite_idem:
  "composite vs a b c d (composite vs a b c d e) = composite vs a b c d e"
  by (cases a; cases b; cases c; cases d)
    (simp_all add: composite_def logoStyle_def chartStyle_def tableStyle_def modalStyle_def
      setStyle_def classList_add_def classList_remove_def fun_upd_twist)

lemma passOn_frame:
  "console (passOn L C T M vs p) = console p"
  "length (nodes (passOn L C T M vs p)) = length (nodes p)"
  by (simp_all add: passOn_def sweep_frame)

lemma passOn_nth:
  assumes "i < length (nodes p)"
  shows "nodes (passOn L C T M vs p) ! i =
           composite vs (i \<in> set L) (i \<in> set C) (i \<in> set T) (i \<in> set M) (nodes p ! i)"
proof -
  let ?p1 = "sweep L (logoStyle vs) p"
  let ?p2 = "sweep C (chartStyle vs) ?p1"
  let ?p3 = "sweep T (tableStyle vs) ?p2"
  have 1: "nodes ?p1 ! i = (if i \<in> set L then logoStyle vs (nodes p ! i) else nodes p ! i)"
    using assms by (rule sweep_nth [OF style_idem(1)])
  have 2: "nodes ?p2 ! i = (if i \<in> set C then chartStyle vs (nodes ?p1 ! i) else nodes ?p1 ! i)"
    using assms by (intro sweep_nth [OF style_idem(2)]) (simp add: sweep_frame)
  have 3: "nodes ?p3 ! i = (if i \<in> set T then tableStyle vs (nodes ?p2 ! i) else nodes ?p2 ! i)"
    using assms by (intro sweep_nth [OF style_idem(3)]) (simp add: sweep_frame)
  have 4: "nodes (sweep M (modalStyle vs) ?p3) ! i =
      (if i \<in> set M then modalStyle vs (nodes ?p3 ! i) else nodes ?p3 ! i)"
    using assms by (intro sweep_nth [OF style_idem(4)]) (simp add: sweep_frame)
  show ?thesis
    unfolding passOn_def 4 3 2 1 by (simp add: composite_def)
qed

lemma passOn_idem: "passOn L C T M vs (passOn L C T M vs p) = passOn L C T M vs p"
proof -
  let ?q = "passOn L C T M vs p"
  have "nodes (passOn L C T M vs ?q) = nodes ?q"
  proof (rule nth_equalityI)
    show "length (nodes (passOn L C T M vs ?q)) = length (nodes ?q)"
      by (simp add: passOn_frame)
  next
    fix i
    assume "i < length (nodes (passOn L C T M vs ?q))"
    then have i: "i < length (nodes p)"
      by (simp add: passOn_frame)
    then have "i < length (nodes ?q)"
      by (simp add: passOn_frame)
    then have "nodes (passOn L C T M vs ?q) ! i =
        composite vs (i \<in> set L) (i \<in> set C) (i \<in> set T) (i \<in> set M) (nodes ?q ! i)"
      by (rule passOn_nth)
    then show "nodes (passOn L C T M vs ?q) ! i = nodes ?q ! i"
      by (simp add: passOn_nth [OF i] composite_idem)
  qed
  then show ?thesis
    by (rule page_eqI) (simp add: passOn_frame)
qed

lemma sameSelection_passOn: "sameSelection p (passOn L C T M vs p)"
proof -
  let ?p1 = "sweep L (logoStyle vs) p"
  let ?p2 = "sweep C (chartStyle vs) ?p1"
  let ?p3 = "sweep T (tableStyle vs) ?p2"
  have s1: "sameSelection p ?p1"
    by (rule sameSelection_sweep [OF harmless_styles(1)])
  have s2: "sameSelection p ?p2"
    by (rule sameSelection_trans [OF s1 sameSelection_sweep [OF harmless_styles(2)]])
  have s3: "sameSelection p ?p3"
    by (rule sameSelection_trans [OF s2 sameSelection_sweep [OF harmless_styles(3)]])
  show ?thesis
    unfolding passOn_def
    by (rule sameSelection_trans [OF s3 sameSelection_sweep [OF harmless_styles(4)]])
qed

lemma targets_same:
  assumes "sameSelection p q"
  shows "logoTargets q = logoTargets p" "chartTargets q = chartTargets p"
    "tableTargets q = tableTargets p" "modalTargets q = modalTargets p"
proof -
  show "logoTargets q = logoTargets p"
    using assms by (simp add: logoTargets_def querySelector_same classSelectors_def)
  show "chartTargets q = chartTargets p"
    using assms by (simp add: chartTargets_def querySelectorAll_same classSelectors_def)
  show "modalTargets q = modalTargets p"
    using assms by (simp add: modalTargets_def querySelectorAll_same classSelectors_def)
  have "querySelectorAll [Class ''asset-table''] q = querySelectorAll [Class ''asset-table''] p"
    using assms by (simp add: querySelectorAll_same classSelectors_def)
  then show "tableTargets q = tableTargets p"
    using assms by (simp add: tableTargets_def containersOf_def table_container_same)
qed

lemma applyResponsiveAdjustments_eq:
  "applyResponsiveAdjustments vs p =
     (Normal, passOn (logoTargets p) (chartTargets p) (tableTargets p) (modalTargets p) vs p)"
proof -
  let ?p1 = "sweep (logoTargets p) (logoStyle vs) p"
  let ?p2 = "sweep (chartTargets p) (chartStyle vs) ?p1"
  let ?p3 = "sweep (tableTargets p) (tableStyle vs) ?p2"
  have s1: "sameSelection p ?p1"
    by (rule sameSelection_sweep [OF harmless_styles(1)])
  have s2: "sameSelection p ?p2"
    by (rule sameSelection_trans [OF s1 sameSelection_sweep [OF harmless_styles(2)]])
  have s3: "sameSelection p ?p3"
    by (rule sameSelection_trans [OF s2 sameSelection_sweep [OF harmless_styles(3)]])
  have "adjustChartSizes vs ?p1 = (Normal, ?p2)"
    by (simp add: adjustChartSizes_eq targets_same [OF s1])
  moreover have "adjustTableDisplay vs ?p2 = (Normal, ?p3)"
    by (simp add: adjustTableDisplay_eq targets_same [OF s2])
  moreover have "handleModalResponsiveness vs ?p3 =
      (Normal, sweep (modalTargets p) (modalStyle vs) ?p3)"
    by (simp add: handleModalResponsiveness_eq targets_same [OF s3])
  ultimately show ?thesis
    by (simp add: applyResponsiveAdjustments_def block_Cons adjustNavbarLogo_eq passOn_def)
qed

lemma applyResponsiveAdjustments_idem:
  "applyResponsiveAdjustments vs (snd (applyResponsiveAdjustments vs p)) =
     applyResponsiveAdjustments vs p"
  by (simp add: applyResponsiveAdjustments_eq targets_same [OF sameSelection_passOn] passOn_idem)

lemma no_targets:
  "querySelectorAll [Class ''ubc-logo''] p = [] \<Longrightarrow>
   querySelectorAll [Class ''ubc-facilities-logo''] p = [] \<Longrightarrow> logoTargets p = []"
  "querySelectorAll [Class ''asset-table''] p = [] \<Longrightarrow> tableTargets p = []"
  by (simp_all add: logoTargets_def querySelector_def tableTargets_def containersOf_def)

text \<open>
  C8. The adjustment pass never throws; running it on the page it has left, with the same
  state, gives that page again (same styles, same classes); and each of its four
  procedures leaves the page as it is, without error, when no element matches its
  selectors. The selectors are matched against every node of the document, the document
  element included, and \<open>closest\<close> climbs up to it.
\<close>

theorem adjustment_pass_idempotent:
  "fst (applyResponsiveAdjustments vs p) = Normal \<and>
   applyResponsiveAdjustments vs (snd (applyResponsiveAdjustments vs p)) =
     applyResponsiveAdjustments vs p \<and>
   (querySelectorAll [Class ''ubc-logo''] p = [] \<and>
    querySelectorAll [Class ''ubc-facilities-logo''] p = [] \<longrightarrow>
      adjustNavbarLogo vs p = (Normal, p)) \<and>
   (querySelectorAll [Class ''chart-img'', Class ''responsive-iframe'', Class ''chart-container''] p
      = [] \<longrightarrow> adjustChartSizes vs p = (Normal, p)) \<and>
   (querySelectorAll [Class ''asset-table''] p = [] \<longrightarrow> adjustTableDisplay vs p = (Normal, p)) \<and>
   (querySelectorAll [Class ''modal-dialog''] p = [] \<longrightarrow>
      handleModalResponsiveness vs p = (Normal, p))"
proof -
  have "fst (applyResponsiveAdjustments vs p) = Normal"
    by (simp add: applyResponsiveAdjustments_eq)
  moreover have "querySelectorAll [Class ''ubc-logo''] p = [] \<and>
    querySelectorAll [Class ''ubc-facilities-logo''] p = [] \<longrightarrow>
      adjustNavbarLogo vs p = (Normal, p)"
    by (simp add: adjustNavbarLogo_eq no_targets sweep_Nil)
  moreover have "querySelectorAll [Class ''chart-img'', Class ''responsive-iframe'',
      Class ''chart-container''] p = [] \<longrightarrow> adjustChartSizes vs p = (Normal, p)"
    by (simp add: adjustChartSizes_eq chartTargets_def sweep_Nil)
  moreover have "querySelectorAll [Class ''asset-table''] p = [] \<longrightarrow>
      adjustTableDisplay vs p = (Normal, p)"
    by (simp add: adjustTableDisplay_eq no_targets sweep_Nil)
  moreover have "querySelectorAll [Class ''modal-dialog''] p = [] \<longrightarrow>
      handleModalResponsiveness vs p = (Normal, p)"
    by (simp add: handleModalResponsiveness_eq modalTargets_def sweep_Nil)
  ultimately show ?thesis
    using applyResponsiveAdjustments_idem by blast
qed

theorem adjustment_pass_idempotent_witness:
  "querySelectorAll [Class ''ubc-logo''] (samplePage []) = [] \<and>
   querySelectorAll [Class ''ubc-facilities-logo''] (samplePage []) = [] \<and>
   querySelectorAll [Class ''chart-img'', Class ''responsive-iframe'', Class ''chart-container'']
     (samplePage []) = [] \<and>
   querySelectorAll [Class ''asset-table''] (samplePage []) = [] \<and>
   querySelectorAll [Class ''modal-dialog''] (samplePage []) = [] \<and>
   adjustNavbarLogo mobileState (samplePage []) = (Normal, samplePage []) \<and>
   adjustChartSizes mobileState (samplePage []) = (Normal, samplePage []) \<and>
   adjustTableDisplay mobileState (samplePage []) = (Normal, samplePage []) \<and>
   handleModalResponsiveness mobileState (samplePage []) = (Normal, samplePage []) \<and>
   map (\<lambda>e. (style e ''maxHeight'', style e ''fontSize'', style e ''margin'', classList e))
     (nodes (snd (applyResponsiveAdjustments mobileState
        (snd (applyResponsiveAdjustments mobileState dashboardPage))))) =
   [(None, None, None, []),
    (Some ''50px'', None, None, [''ubc-logo'']),
    (None, Some ''0.85rem'', None, [''table-responsive'']),
    (None, None, None, [''asset-table'']),
    (Some ''50vh'', None, None, [''chart-container'']),
    (None, None, Some ''0.5rem'', [''modal-dialog'', ''modal-dialog-scrollable''])] \<and>
   map (\<lambda>e. (style e ''maxHeight'', style e ''fontSize'', style e ''margin'', classList e))
     (nodes (snd (applyResponsiveAdjustments mobileState
        (snd (applyResponsiveAdjustments mobileState rootModalPage))))) =
   [(None, Some ''0.85rem'', Some ''0.5rem'',
       [''modal-dialog'', ''table-responsive'', ''modal-dialog-scrollable'']),
    (None, None, None, [''asset-table''])]"
proof -
  have none: "querySelectorAll [Class ''ubc-logo''] (samplePage []) = []"
    "querySelectorAll [Class ''ubc-facilities-logo''] (samplePage []) = []"
    "querySelectorAll [Class ''chart-img'', Class ''responsive-iframe'', Class ''chart-container'']
       (samplePage []) = []"
    "querySelectorAll [Class ''asset-table''] (samplePage []) = []"
    "querySelectorAll [Class ''modal-dialog''] (samplePage []) = []"
    by code_simp+
  have once: "map (\<lambda>e. (style e ''maxHeight'', style e ''fontSize'', style e ''margin'', classList e))
     (nodes (snd (applyResponsiveAdjustments mobileState dashboardPage))) =
   [(None, None, None, []),
    (Some ''50px'', None, None, [''ubc-logo'']),
    (None, Some ''0.85rem'', None, [''table-responsive'']),
    (None, None, None, [''asset-table'']),
    (Some ''50vh'', None, None, [''chart-container'']),
    (None, None, Some ''0.5rem'', [''modal-dialog'', ''modal-dialog-scrollable''])]"
    by code_simp
  have root: "map (\<lambda>e. (style e ''maxHeight'', style e ''fontSize'', style e ''margin'', classList e))
     (nodes (snd (applyResponsiveAdjustments mobileState rootModalPage))) =
   [(None, Some ''0.85rem'', Some ''0.5rem'',
       [''modal-dialog'', ''table-responsive'', ''modal-dialog-scrollable'']),
    (None, None, None, [''asset-table''])]"
    by code_simp
  show ?thesis
    using adjustment_pass_idempotent [of mobileState "samplePage []"]
      adjustment_pass_idempotent [of mobileState dashboardPage]
      adjustment_pass_idempotent [of mobileState rootModalPage] once root
    by (simp add: none)
qed

section \<open>Resize\<close>

lemma in_page_Normal:
  "fst (c (thePage s)) = Normal \<Longrightarrow> in_page c s = (Normal, s\<lparr>thePage := snd (c (thePage s))\<rparr>)"
  by (cases "c (thePage s)") (simp add: in_page_def)

lemma in_page_pass:
  "in_page (applyResponsiveAdjustments vs) s =
     (Normal, s\<lparr>thePage := snd (applyResponsiveAdjustments vs (thePage s))\<rparr>)"
  by (rule in_page_Normal) (simp add: applyResponsiveAdjustments_eq)

lemma updateViewportState_frame:
  "window (snd (updateViewportState w h s)) = window s"
  "listeners (snd (updateViewportState w h s)) = listeners s"
  "eventListeners (snd (updateViewportState w h s)) = eventListeners s"
  "debounced (snd (updateViewportState w h s)) = debounced s"
  by (simp_all add: updateViewportState_eq)

lemma onResize_changed:
  assumes "innerWidth (window s) \<noteq> width (viewportState s) \<or>
           innerHeight (window s) \<noteq> height (viewportState s)"
  shows "onResize s = (Normal, resized s)"
proof -
  let ?w = "innerWidth (window s)" and ?h = "innerHeight (window s)"
  let ?s1 = "snd (updateViewportState ?w ?h s)"
  have 1: "fst (updateViewportState ?w ?h s) = Normal"
    by (simp add: updateViewportState_eq)
  have "onResize s = block
             [updateViewportState ?w ?h,
              (\<lambda>s. in_page (applyResponsiveAdjustments (viewportState s)) s),
              (\<lambda>s. triggerListeners ''resize'' (viewportState s) s)] s"
    using assms by (auto simp: onResize_def Let_def)
  also have "\<dots> = block
             [(\<lambda>s. in_page (applyResponsiveAdjustments (viewportState s)) s),
              (\<lambda>s. triggerListeners ''resize'' (viewportState s) s)] ?s1"
    by (simp add: block_Cons 1)
  also have "\<dots> = (Normal, resized s)"
    by (simp add: block_Cons in_page_pass triggerListeners_eq resized_def Let_def
        updateViewportState_frame)
  finally show ?thesis .
qed

lemma onResize_unchanged:
  "innerWidth (window s) = width (viewportState s) \<Longrightarrow>
   innerHeight (window s) = height (viewportState s) \<Longrightarrow> onResize s = (Normal, s)"
  by (simp add: onResize_def)

lemma resized_fields:
  "viewportState (resized s) =
     breakpoints (innerWidth (window s)) (innerHeight (window s)) (viewportState s)"
  "window (resized s) = window s"
  "listeners (resized s) = listeners s"
  "eventListeners (resized s) = eventListeners s"
  "debounced (resized s) = debounced s"
  by (simp_all add: resized_def Let_def viewportState_updateViewportState
      updateViewportState_frame)

lemma applyResponsiveAdjustments_console:
  "console (snd (applyResponsiveAdjustments vs p)) = console p"
  by (simp add: applyResponsiveAdjustments_eq passOn_frame)

text \<open>
  C4. When the observed width and height both equal the stored ones, \<open>onResize\<close>
  changes nothing: no field, no adjustment pass, no notification. When one differs, it
  sets the size-derived fields from the observed size, runs the adjustment pass once, and
  then notifies the subscribers once, with the event name resize and the new state.
\<close>

theorem resize_guard:
  "(innerWidth (window s) = width (viewportState s) \<and>
    innerHeight (window s) = height (viewportState s) \<longrightarrow> onResize s = (Normal, s)) \<and>
   (innerWidth (window s) \<noteq> width (viewportState s) \<or>
    innerHeight (window s) \<noteq> height (viewportState s) \<longrightarrow>
      fst (onResize s) = Normal \<and>
      viewportState (snd (onResize s)) =
        breakpoints (innerWidth (window s)) (innerHeight (window s)) (viewportState s) \<and>
      thePage (snd (onResize s)) =
        notifyAll ''resize'' (viewportState (snd (onResize s))) (listeners s)
          (snd (applyResponsiveAdjustments (viewportState (snd (onResize s)))
             (thePage (snd (updateViewportState (innerWidth (window s))
                (innerHeight (window s)) s))))) \<and>
      window (snd (onResize s)) = window s \<and>
      listeners (snd (onResize s)) = listeners s \<and>
      eventListeners (snd (onResize s)) = eventListeners s \<and>
      debounced (snd (onResize s)) = debounced s)"
proof -
  have "onResize s = (Normal, resized s)"
    if "innerWidth (window s) \<noteq> width (viewportState s) \<or>
        innerHeight (window s) \<noteq> height (viewportState s)"
    using that by (rule onResize_changed)
  moreover have "thePage (resized s) =
      notifyAll ''resize'' (viewportState (resized s)) (listeners s)
          (snd (applyResponsiveAdjustments (viewportState (resized s))
             (thePage (snd (updateViewportState (innerWidth (window s))
                (innerHeight (window s)) s)))))"
    by (simp add: resized_fields) (simp add: resized_def Let_def viewportState_updateViewportState)
  ultimately show ?thesis
    using onResize_unchanged [of s] by (auto simp: resized_fields)
qed

theorem resize_guard_witness:
  "innerWidth (window wideState) = width (viewportState wideState) \<and>
   innerHeight (window wideState) = height (viewportState wideState) \<and>
   onResize wideState = (Normal, wideState) \<and>
   innerWidth (window narrowedState) \<noteq> width (viewportState narrowedState) \<and>
   isMobile (viewportState (snd (onResize narrowedState))) \<and>
   \<not> isTablet (viewportState (snd (onResize narrowedState))) \<and>
   \<not> isDesktop (viewportState (snd (onResize narrowedState))) \<and>
   console (thePage (snd (onResize narrowedState))) = [ConsoleLog ''a:resize:mobile'']"
proof -
  have same: "innerWidth (window wideState) = width (viewportState wideState) \<and>
      innerHeight (window wideState) = height (viewportState wideState)"
    by (simp add: wideState_def loaded_def sampleWindow_def initialViewportState_def)
  have differs: "innerWidth (window narrowedState) \<noteq> width (viewportState narrowedState)"
    by (simp add: narrowedState_def wideState_def loaded_def sampleWindow_def
        initialViewportState_def)
  have subs: "listeners narrowedState = [probe ''a'']"
    and con: "console (thePage narrowedState) = []"
    by (simp_all add: narrowedState_def wideState_def loaded_def dashboardPage_def
        samplePage_def)
  have w: "innerWidth (window narrowedState) = 500"
    by (simp add: narrowedState_def sampleWindow_def)
  from resize_guard [of narrowedState] differs
  have vs: "viewportState (snd (onResize narrowedState)) =
        breakpoints 500 (innerHeight (window narrowedState)) (viewportState narrowedState)"
    and pg: "thePage (snd (onResize narrowedState)) =
        notifyAll ''resize'' (viewportState (snd (onResize narrowedState))) [probe ''a'']
          (snd (applyResponsiveAdjustments (viewportState (snd (onResize narrowedState)))
             (thePage (snd (updateViewportState 500
                (innerHeight (window narrowedState)) narrowedState)))))"
    by (simp_all add: w subs)
  have "console (thePage (snd (onResize narrowedState))) = [ConsoleLog ''a:resize:mobile'']"
    unfolding pg
    by (simp add: notifyAll_def notifyOne_def probe_def console_log_def modify_def vs
        breakpoints_def applyResponsiveAdjustments_console updateViewportState_eq
        updateViewportClass_elements con)
  then show ?thesis
    using resize_guard [of wideState] same differs by (simp add: vs breakpoints_def)
qed

section \<open>Initialisation and startup\<close>

lemma forEach_Normal:
  assumes "\<And>x q. fst (body x q) = Normal"
  shows "fst (forEach xs body p) = Normal"
proof (induction xs arbitrary: p)
  case Nil
  show ?case by (simp add: forEach_def)
next
  case (Cons x xs)
  have "forEach (x # xs) body p = forEach xs body (snd (body x p))"
    by (simp add: forEach_def block_Cons assms)
  then show ?case by (simp add: Cons.IH)
qed

lemma in_page_fields:
  "window (snd (in_page c s)) = window s"
  "viewportState (snd (in_page c s)) = viewportState s"
  "listeners (snd (in_page c s)) = listeners s"
  "eventListeners (snd (in_page c s)) = eventListeners s"
  "debounced (snd (in_page c s)) = debounced s"
  "fst (in_page c s) = fst (c (thePage s))"
  by (cases "c (thePage s)"; simp add: in_page_def)+

lemma updateViewportClass_fields:
  "window (snd (updateViewportClass s)) = window s"
  "viewportState (snd (updateViewportClass s)) = viewportState s"
  "listeners (snd (updateViewportClass s)) = listeners s"
  "eventListeners (snd (updateViewportClass s)) = eventListeners s"
  "debounced (snd (updateViewportClass s)) = debounced s"
  by (subst updateViewportClass_frame, simp)+

lemma init_Normal: "fst (init s) = Normal"
  by (simp add: init_def block_Cons modify_def addEventListener_def in_page_fields
      console_log_def on_root_def updateViewportClass_Normal applyResponsiveAdjustments_eq)

lemma init_fields:
  "eventListeners (snd (init s)) = eventListeners s @ registrations (debounced s)"
  "debounced (snd (init s)) = debounced s + 1"
  "listeners (snd (init s)) = listeners s"
  "window (snd (init s)) = window s"
  "viewportState (snd (init s)) =
     (viewportState s)\<lparr>isTouch := detectTouch (window s),
        connection := detectConnectionSpeed (window s)\<rparr>"
  by (simp_all add: init_def block_Cons modify_def addEventListener_def in_page_fields
      console_log_def on_root_def updateViewportClass_Normal updateViewportClass_fields
      applyResponsiveAdjustments_eq registrations_def)

lemma block_Normal:
  assumes "\<And>c s. c \<in> set cs \<Longrightarrow> fst (c s) = Normal"
  shows "fst (block cs s) = Normal"
  using assms
proof (induction cs arbitrary: s)
  case Nil
  show ?case by simp
next
  case (Cons c cs)
  then show ?case by (simp add: block_Cons)
qed


lemma enhanceTouchTargets_Normal: "fst (enhanceTouchTargets p) = Normal"
  unfolding enhanceTouchTargets_def Let_def
  by (rule forEach_Normal) (simp add: block_Cons on_node_Some)

lemma enableTouchScrolling_Normal: "fst (enableTouchScrolling p) = Normal"
  unfolding enableTouchScrolling_def Let_def
  by (rule forEach_Normal) (simp add: on_node_Some)

lemma TouchManager_init_Normal: "fst (TouchManager_init s) = Normal"
  by (simp add: TouchManager_init_def in_page_fields block_Cons on_root_def modify_def
      enhanceTouchTargets_Normal enableTouchScrolling_Normal)

lemma TouchManager_init_fields:
  "window (snd (TouchManager_init s)) = window s"
  "viewportState (snd (TouchManager_init s)) = viewportState s"
  "listeners (snd (TouchManager_init s)) = listeners s"
  "eventListeners (snd (TouchManager_init s)) = eventListeners s"
  "debounced (snd (TouchManager_init s)) = debounced s"
  by (simp_all add: TouchManager_init_def in_page_fields)

lemma PerformanceMonitor_init_Normal: "fst (PerformanceMonitor_init s) = Normal"
  by (simp add: PerformanceMonitor_init_def block_Cons in_page_fields console_log_def
      console_warn_def modify_def subscribe_def)

lemma PerformanceMonitor_init_fields:
  "window (snd (PerformanceMonitor_init s)) = window s"
  "viewportState (snd (PerformanceMonitor_init s)) = viewportState s"
  "listeners (snd (PerformanceMonitor_init s)) = listeners s @ [visibilityCallback]"
  "eventListeners (snd (PerformanceMonitor_init s)) = eventListeners s"
  "debounced (snd (PerformanceMonitor_init s)) = debounced s"
  by (simp_all add: PerformanceMonitor_init_def block_Cons in_page_fields console_log_def
      console_warn_def modify_def subscribe_def)

lemma lazy_body_Normal:
  "fst (block
          [on_node (Some img) (setAttribute ''loading'' ''lazy''),
           (\<lambda>q. case attrs (nodes q ! img) ''data-src'' of
                   None \<Rightarrow> (Normal, q)
                 | Some src \<Rightarrow>
                     if src = [] then (Normal, q)
                     else block
                       [on_node (Some img) (setAttribute ''src'' src),
                        on_node (Some img) (removeAttribute ''data-src'')] q)] p) = Normal"
  by (rule block_Normal)
    (auto simp: on_node_Some block_Cons split: option.split)

lemma ImageOptimizer_init_Normal: "fst (ImageOptimizer_init s) = Normal"
  unfolding ImageOptimizer_init_def setupLazyLoading_def
  by (simp add: in_page_fields forEach_Normal [OF lazy_body_Normal])

lemma ImageOptimizer_init_fields:
  "window (snd (ImageOptimizer_init s)) = window s"
  "viewportState (snd (ImageOptimizer_init s)) = viewportState s"
  "listeners (snd (ImageOptimizer_init s)) = listeners s"
  "eventListeners (snd (ImageOptimizer_init s)) = eventListeners s"
  "debounced (snd (ImageOptimizer_init s)) = debounced s"
  by (simp_all add: ImageOptimizer_init_def setupLazyLoading_def in_page_fields)

lemma enhanceFormResponsiveness_Normal: "fst (enhanceFormResponsiveness s) = Normal"
  unfolding enhanceFormResponsiveness_def
  by (simp add: in_page_fields)
    (rule forEach_Normal, simp add: block_Cons on_node_Some skip_def)

lemma enhanceFormResponsiveness_fields:
  "window (snd (enhanceFormResponsiveness s)) = window s"
  "viewportState (snd (enhanceFormResponsiveness s)) = viewportState s"
  "listeners (snd (enhanceFormResponsiveness s)) = listeners s"
  "eventListeners (snd (enhanceFormResponsiveness s)) = eventListeners s"
  "debounced (snd (enhanceFormResponsiveness s)) = debounced s"
  by (simp_all add: enhanceFormResponsiveness_def in_page_fields)

lemma try_catch_Normal:
  assumes "\<And>e s'. fst (handler e s') = Normal"
  shows "fst (try_catch body handler s) = Normal"
proof (cases "body s")
  case (Pair r s')
  then show ?thesis by (cases r) (simp_all add: try_catch_def assms)
qed

lemma try_catch_skip: "fst (body s) = Normal \<Longrightarrow> try_catch body handler s = body s"
  by (cases "body s") (simp add: try_catch_def)

lemma console_error_Normal: "fst (in_page (console_error msg e) s) = Normal"
  by (simp add: in_page_fields console_error_def modify_def)

lemma mainStartupHandler_Normal: "fst (mainStartupHandler m s) = Normal"
  unfolding mainStartupHandler_def by (rule try_catch_Normal) (rule console_error_Normal)

lemma mainStartupHandler_caught:
  assumes "block
          [if is_function (rmInit m) then call (rmInit m) else skip,
           if is_function (touchInit m) then call (touchInit m) else skip,
           if is_function (perfInit m) then call (perfInit m) else skip,
           if is_function (imageInit m) then call (imageInit m) else skip,
           in_page (console_log ''Responsive Design System Loaded'')] s = (Throw e, s')"
  shows "mainStartupHandler m s =
           (Normal, s'\<lparr>thePage := (thePage s')\<lparr>console := console (thePage s') @
              [ConsoleError ''Error initializing Responsive Design System:'' e]\<rparr>\<rparr>)"
  using assms
  by (simp add: mainStartupHandler_def try_catch_def in_page_def console_error_def modify_def)

lemma formStartupHandler_propagates:
  "call (rmInit m) s = (Throw e, s') \<Longrightarrow> formStartupHandler m s = (Throw e, s')"
  by (simp add: formStartupHandler_def block_Cons)

lemma reported_Normal: "fst (reported c s) = Normal"
  unfolding reported_def by (rule try_catch_Normal) (rule console_error_Normal)

lemma reported_skip: "fst (c s) = Normal \<Longrightarrow> reported c s = c s"
  unfolding reported_def by (rule try_catch_skip)

lemma main_startup_eq: "mainStartupHandler theManagers s = (Normal, afterMain s)"
proof -
  have "block
          [init, TouchManager_init, PerformanceMonitor_init, ImageOptimizer_init,
           in_page (console_log ''Responsive Design System Loaded'')] s = (Normal, afterMain s)"
    by (simp add: block_Cons init_Normal TouchManager_init_Normal PerformanceMonitor_init_Normal
        ImageOptimizer_init_Normal afterMain_def in_page_fields console_log_def modify_def
        prod_eq_iff)
  then show ?thesis
    by (simp add: mainStartupHandler_def theManagers_def is_function_def call_def try_catch_def)
qed

lemma afterMain_fields:
  "eventListeners (afterMain s) = eventListeners s @ registrations (debounced s)"
  "debounced (afterMain s) = debounced s + 1"
  "listeners (afterMain s) = listeners s @ [visibilityCallback]"
  "window (afterMain s) = window s"
  by (simp_all add: afterMain_def in_page_fields ImageOptimizer_init_fields
      PerformanceMonitor_init_fields TouchManager_init_fields init_fields)

lemma form_startup_eq: "formStartupHandler theManagers s = (Normal, afterForm s)"
  by (simp add: formStartupHandler_def theManagers_def call_def block_Cons init_Normal
      enhanceFormResponsiveness_Normal afterForm_def prod_eq_iff)

lemma afterForm_fields:
  "eventListeners (afterForm s) = eventListeners s @ registrations (debounced s)"
  "debounced (afterForm s) = debounced s + 1"
  "listeners (afterForm s) = listeners s"
  "window (afterForm s) = window s"
  by (simp_all add: afterForm_def enhanceFormResponsiveness_fields init_fields)

lemma domContentLoaded_eq:
  "domContentLoaded theManagers s = (Normal, afterForm (afterMain s))"
  by (simp add: domContentLoaded_def block_Cons reported_skip main_startup_eq form_startup_eq)

lemma started_fields:
  "eventListeners (afterForm (afterMain s)) =
     eventListeners s @ registrations (debounced s) @ registrations (debounced s + 1)"
  "listeners (afterForm (afterMain s)) = listeners s @ [visibilityCallback]"
  "window (afterForm (afterMain s)) = window s"
  by (simp_all add: afterForm_fields afterMain_fields)

text \<open>
  C2. Every exception thrown during startup is caught by the startup handler and written
  on the console, and never leaves the handler. The first handler does this; the second
  does not: when \<open>window.ResponsiveManager.init\<close> is not a function, or when a step
  throws, the exception leaves it, while the first handler, for the same input, completes
  normally, keeps what the steps before the failure did, and skips the steps after it.
\<close>

theorem form_startup_propagates:
  "fst (formStartupHandler (theManagers\<lparr>rmInit := None\<rparr>) wideState) =
     Throw (TypeError ''is not a function'') \<and>
   fst (mainStartupHandler (theManagers\<lparr>rmInit := None\<rparr>) wideState) = Normal \<and>
   fst (formStartupHandler (theManagers\<lparr>enhanceForm := Some (throw (Thrown ''form''))\<rparr>)
     wideState) = Throw (Thrown ''form'') \<and>
   fst (mainStartupHandler (theManagers\<lparr>touchInit := Some (throw (Thrown ''touch''))\<rparr>)
     wideState) = Normal \<and>
   length (eventListeners (snd (mainStartupHandler
     (theManagers\<lparr>touchInit := Some (throw (Thrown ''touch''))\<rparr>) wideState))) = 4 \<and>
   length (listeners (snd (mainStartupHandler
     (theManagers\<lparr>touchInit := Some (throw (Thrown ''touch''))\<rparr>) wideState))) = 1 \<and>
   last (console (thePage (snd (mainStartupHandler
     (theManagers\<lparr>touchInit := Some (throw (Thrown ''touch''))\<rparr>) wideState)))) =
     ConsoleError ''Error initializing Responsive Design System:'' (Thrown ''touch'')"
proof -
  let ?m = "theManagers\<lparr>touchInit := Some (throw (Thrown ''touch''))\<rparr>"
  have "formStartupHandler (theManagers\<lparr>rmInit := None\<rparr>) wideState =
      (Throw (TypeError ''is not a function''), wideState)"
    by (rule formStartupHandler_propagates) (simp add: call_def throw_def)
  moreover have "fst (formStartupHandler
      (theManagers\<lparr>enhanceForm := Some (throw (Thrown ''form''))\<rparr>) wideState) =
      Throw (Thrown ''form'')"
    by (simp add: formStartupHandler_def theManagers_def call_def block_Cons init_Normal
        throw_def)
  moreover have "block
          [if is_function (rmInit ?m) then call (rmInit ?m) else skip,
           if is_function (touchInit ?m) then call (touchInit ?m) else skip,
           if is_function (perfInit ?m) then call (perfInit ?m) else skip,
           if is_function (imageInit ?m) then call (imageInit ?m) else skip,
           in_page (console_log ''Responsive Design System Loaded'')] wideState =
        (Throw (Thrown ''touch''), snd (init wideState))"
    by (simp add: theManagers_def is_function_def call_def block_Cons init_Normal throw_def)
  then have "mainStartupHandler ?m wideState =
      (Normal, (snd (init wideState))\<lparr>thePage := (thePage (snd (init wideState)))\<lparr>console :=
         console (thePage (snd (init wideState))) @
         [ConsoleError ''Error initializing Responsive Design System:'' (Thrown ''touch'')]\<rparr>\<rparr>)"
    by (rule mainStartupHandler_caught)
  ultimately show ?thesis
    by (simp add: mainStartupHandler_Normal init_fields registrations_def)
      (simp add: wideState_def loaded_def)
qed

section \<open>Repeated handlers\<close>






lemma onZoomChange_eq:
  "onZoomChange s =
     (if currentZoom s \<noteq> zoomLevel (viewportState s) then
        (Normal, s\<lparr>viewportState := (viewportState s)\<lparr>zoomLevel := currentZoom s\<rparr>,
           thePage := notifyAll ''zoom'' ((viewportState s)\<lparr>zoomLevel := currentZoom s\<rparr>)
             (listeners s)
             ((thePage s)\<lparr>console := console (thePage s) @
                [ConsoleLog ''Zoom level changed to:'']\<rparr>)\<rparr>)
      else (Normal, s))"
  by (simp add: onZoomChange_def currentZoom_def modify_def block_Cons in_page_def
      console_log_def triggerListeners_eq Let_def)

lemma onZoomChange_twice:
  "onZoomChange (snd (onZoomChange s)) = (Normal, snd (onZoomChange s))"
  by (simp add: onZoomChange_eq [of s]) (simp add: onZoomChange_eq currentZoom_def)

lemma onZoomChange_zoomLevel:
  "zoomLevel (viewportState (snd (onZoomChange s))) = zoomPercent (window s)"
  by (simp add: onZoomChange_eq currentZoom_def)




lemma started_eq: "started s = afterForm (afterMain s)"
  by (simp add: started_def domContentLoaded_eq)






lemma init_viewportState_isMobile:
  "isMobile (viewportState (snd (init s))) = isMobile (viewportState s)"
  by (simp add: init_fields)







section \<open>Debounce: wheel events\<close>

lemma runTimers_none:
  "nextDue t (pendingTimers d) = None \<Longrightarrow> runTimers funcs t d = d"
  by (simp add: runTimers.simps [of funcs t d])

lemma world_executedFunction: "world (executedFunction k wait t a d) = world d"
  by (cases "timeout d k") (simp_all add: executedFunction_def clearTimeout_def setTimeout_def)

text \<open>On the manager, the listeners called at a time do what \<open>dispatchEvent\<close> does;
  a wrapper changes the timers only.\<close>

lemma callListeners_world:
  "world (fold (callListener now args) hs d) =
     snd (forEach hs (\<lambda>h. reported (runHandler h)) (world d))"
proof (induction hs arbitrary: d)
  case Nil
  then show ?case by (simp add: forEach_def)
next
  case (Cons h hs)
  have step: "world (callListener now args h d) = snd (reported (runHandler h) (world d))"
    by (cases h) (simp_all add: world_executedFunction reported_def try_catch_def skip_def)
  have "forEach (h # hs) (\<lambda>h. reported (runHandler h)) (world d) =
      forEach hs (\<lambda>h. reported (runHandler h)) (snd (reported (runHandler h) (world d)))"
    by (simp add: forEach_def block_Cons reported_Normal)
  with Cons.IH [of "callListener now args h d"] step show ?case
    by simp
qed

lemma dispatchAt_world: "world (dispatchAt ev now args d) = snd (dispatchEvent ev (world d))"
  by (simp add: dispatchAt_def dispatchEvent_def callListeners_world)

subsection \<open>Two wrappers\<close>

lemma dispatchAt_wheel:
  assumes "map snd (filter (\<lambda>(name, h). name = ''wheel'') (eventListeners (world d))) =
     [DebouncedZoom k0, DebouncedZoom k1]"
  shows "dispatchAt ''wheel'' t a d =
     executedFunction k1 500 t a (executedFunction k0 500 t a d)"
  using assms by (simp add: dispatchAt_def)

lemma first_event:
  assumes "k0 \<noteq> k1"
  shows "armed (t + wait) a k0 k1
     (executedFunction k1 wait t a (executedFunction k0 wait t a (untimed w)))"
  using assms
  by (simp add: executedFunction_def clearTimeout_def setTimeout_def untimed_def armed_def)

lemma next_event:
  assumes "armed due a k0 k1 d" and "k0 \<noteq> k1"
  shows "armed (t + wait) a' k0 k1
     (executedFunction k1 wait t a' (executedFunction k0 wait t a' d))"
proof -
  obtain i0 i1 where h: "timeout d k0 = Some i0" "timeout d k1 = Some i1"
    "pendingTimers d = [(i0, due, k0, a), (i1, due, k1, a)]" "i0 < i1" "i1 < nextTimerId d"
    using assms(1) by (auto simp: armed_def split: option.splits)
  then show ?thesis
    using assms(2)
    by (simp add: executedFunction_def clearTimeout_def setTimeout_def armed_def)
qed

lemma nextDue_pair:
  "nextDue t [(i0, due, c0), (i1, due, c1)] = (if due \<le> t then Some (i0, due, c0) else None)"
  by (simp add: nextDue_def)

lemma nextDue_single:
  "nextDue t [(i, due, c)] = (if due \<le> t then Some (i, due, c) else None)"
  by (simp add: nextDue_def)

lemma runTimers_early:
  assumes "armed due a k0 k1 d" and "t < due"
  shows "runTimers funcs t d = d"
  using assms
  by (intro runTimers_none) (auto simp: armed_def nextDue_pair split: option.splits)

lemma runTimers_fires:
  assumes "armed due a k0 k1 d" and "k0 \<noteq> k1" and "due \<le> t"
  shows "world (runTimers funcs t d) = funcs k1 a due (funcs k0 a due (world d))"
    and "pendingTimers (runTimers funcs t d) = []"
proof -
  obtain i0 i1 where h: "timeout d k0 = Some i0" "timeout d k1 = Some i1"
    "pendingTimers d = [(i0, due, k0, a), (i1, due, k1, a)]" "i0 < i1"
    using assms(1) by (auto simp: armed_def split: option.splits)
  let ?d1 = "later funcs k0 due a
     (d\<lparr>pendingTimers := filter (\<lambda>(j, due', k', a). j \<noteq> i0) (pendingTimers d)\<rparr>)"
  let ?d2 = "later funcs k1 due a
     (?d1\<lparr>pendingTimers := filter (\<lambda>(j, due', k', a). j \<noteq> i1) (pendingTimers ?d1)\<rparr>)"
  have p1: "pendingTimers ?d1 = [(i1, due, k1, a)]"
    and w1: "world ?d1 = funcs k0 a due (world d)"
    and t1: "timeout ?d1 k1 = Some i1"
    using h by (simp_all add: later_def clearTimeout_def)
  have p2: "pendingTimers ?d2 = []"
    and w2: "world ?d2 = funcs k1 a due (funcs k0 a due (world d))"
    using p1 w1 t1 by (simp_all add: later_def clearTimeout_def)
  have "runTimers funcs t d = runTimers funcs t ?d1"
    using assms(3) h by (subst runTimers.simps) (simp add: nextDue_pair)
  also have "\<dots> = runTimers funcs t ?d2"
    using assms(3) p1 by (subst runTimers.simps) (simp add: nextDue_single)
  also have "\<dots> = ?d2"
    by (rule runTimers_none) (simp add: p2 nextDue_def)
  finally have "runTimers funcs t d = ?d2" .
  with p2 w2 show "world (runTimers funcs t d) = funcs k1 a due (funcs k0 a due (world d))"
    and "pendingTimers (runTimers funcs t d) = []"
    by simp_all
qed

lemma burst_armed:
  assumes "armed (t + 500) a k0 k1 d" and "burst 500 (t # map fst es)" and "k0 \<noteq> k1"
    and "map snd (filter (\<lambda>(name, h). name = ''wheel'') (eventListeners (world d))) =
       [DebouncedZoom k0, DebouncedZoom k1]"
  shows "armed (last (t # map fst es) + 500) (last (a # map snd es)) k0 k1
           (wheelEvents funcs es d) \<and>
         world (wheelEvents funcs es d) = world d"
  using assms
proof (induction es arbitrary: t a d)
  case Nil
  then show ?case by simp
next
  case (Cons e es)
  obtain t' a' where e: "e = (t', a')" by (cases e)
  from Cons.prems(2) e have order: "t \<le> t'" "t' < t + 500"
    and rest: "burst 500 (t' # map fst es)"
    by simp_all
  have quiet: "runTimers funcs t' d = d"
    using Cons.prems(1) order(2) by (rule runTimers_early)
  let ?d' = "executedFunction k1 500 t' a' (executedFunction k0 500 t' a' d)"
  have disp: "dispatchAt ''wheel'' t' a' d = ?d'"
    using Cons.prems(4) by (rule dispatchAt_wheel)
  have armed': "armed (t' + 500) a' k0 k1 ?d'"
    using Cons.prems(1,3) by (rule next_event)
  have w: "world ?d' = world d"
    by (simp add: world_executedFunction)
  have wheel: "map snd (filter (\<lambda>(name, h). name = ''wheel'') (eventListeners (world ?d'))) =
       [DebouncedZoom k0, DebouncedZoom k1]"
    using Cons.prems(4) w by simp
  have "last (t # map fst (e # es)) = last (t' # map fst es)"
    and "last (a # map snd (e # es)) = last (a' # map snd es)"
    and "wheelEvents funcs (e # es) d = wheelEvents funcs es ?d'"
    by (simp_all add: e quiet disp)
  with Cons.IH [OF armed' rest Cons.prems(3) wheel] w show ?case
    by simp
qed

lemma wheelEvents_burst:
  assumes ne: "es \<noteq> []" and b: "burst 500 (map fst es)" and distinct: "k0 \<noteq> k1"
    and wheel: "map snd (filter (\<lambda>(name, h). name = ''wheel'') (eventListeners w)) =
       [DebouncedZoom k0, DebouncedZoom k1]"
  shows "armed (fst (last es) + 500) (snd (last es)) k0 k1 (wheelEvents funcs es (untimed w))"
    and "world (wheelEvents funcs es (untimed w)) = w"
proof -
  obtain t a es' where es: "es = (t, a) # es'"
    using ne by (cases es) auto
  have quiet: "runTimers funcs t (untimed w) = untimed w"
    by (rule runTimers_none) (simp add: untimed_def nextDue_def)
  let ?d1 = "executedFunction k1 500 t a (executedFunction k0 500 t a (untimed w))"
  have w0: "world (untimed w :: ('a, sys) timed) = w"
    by (simp add: untimed_def)
  have disp: "dispatchAt ''wheel'' t a (untimed w) = ?d1"
    using wheel by (intro dispatchAt_wheel) (simp add: w0)
  have a1: "armed (t + 500) a k0 k1 ?d1"
    using distinct by (rule first_event)
  have w1: "world ?d1 = w"
    by (simp add: world_executedFunction w0)
  have b': "burst 500 (t # map fst es')"
    using b by (simp add: es)
  have "armed (last (t # map fst es') + 500) (last (a # map snd es')) k0 k1
           (wheelEvents funcs es' ?d1) \<and>
         world (wheelEvents funcs es' ?d1) = world ?d1"
    using a1 b' distinct by (rule burst_armed) (simp add: w1 wheel)
  moreover have "last (t # map fst es') = fst (last es)"
    and "last (a # map snd es') = snd (last es)"
    by (simp_all add: es last_map)
  moreover have "wheelEvents funcs es (untimed w) = wheelEvents funcs es' ?d1"
    by (simp add: es quiet disp)
  ultimately show
    "armed (fst (last es) + 500) (snd (last es)) k0 k1 (wheelEvents funcs es (untimed w))"
    and "world (wheelEvents funcs es (untimed w)) = w"
    using w1 by simp_all
qed

lemma started_wheel:
  "map snd (filter (\<lambda>(name, h). name = ''wheel'')
     (eventListeners (started (loaded w p subscribers)))) =
   [DebouncedZoom 0, DebouncedZoom 1]"
  by (simp add: started_eq started_fields registrations_def loaded_def)

lemma zoomCheck_zoomLevel:
  "zoomLevel (viewportState (zoomCheck platform k args now s)) = zoomPercent (platform now)"
  by (simp add: zoomCheck_def onZoomChange_zoomLevel)

lemma window_onZoomChange: "window (snd (onZoomChange s)) = window s"
  by (simp add: onZoomChange_eq)

lemma zoomCheck_twice:
  "zoomCheck platform k' args' now (zoomCheck platform k args now s) =
     zoomCheck platform k args now s"
proof -
  let ?s = "snd (onZoomChange (s\<lparr>window := platform now\<rparr>))"
  have "window ?s = platform now"
    by (simp add: window_onZoomChange)
  then have "?s\<lparr>window := platform now\<rparr> = ?s"
    by (metis sys.surjective sys.update_convs(1))
  then show ?thesis
    by (simp add: zoomCheck_def onZoomChange_twice)
qed

subsection \<open>One wrapper\<close>

text \<open>Had \<open>init\<close> run once, the platform would hold one wrapper, and a burst of
  wheel events would make the debounced function run once, 500 ms after the last
  event.\<close>

lemma dispatchAt_wheel_one:
  assumes "map snd (filter (\<lambda>(name, h). name = ''wheel'') (eventListeners (world d))) =
     [DebouncedZoom k]"
  shows "dispatchAt ''wheel'' t a d = executedFunction k 500 t a d"
  using assms by (simp add: dispatchAt_def)

lemma first_event_one:
  "armedOne (t + wait) a k (executedFunction k wait t a (untimed w))"
  by (simp add: executedFunction_def clearTimeout_def setTimeout_def untimed_def armedOne_def)

lemma next_event_one:
  assumes "armedOne due a k d"
  shows "armedOne (t + wait) a' k (executedFunction k wait t a' d)"
  using assms
  by (auto simp: executedFunction_def clearTimeout_def setTimeout_def armedOne_def
      split: option.splits)

lemma runTimers_early_one:
  assumes "armedOne due a k d" and "t < due"
  shows "runTimers funcs t d = d"
  using assms
  by (intro runTimers_none) (auto simp: armedOne_def nextDue_single split: option.splits)

lemma runTimers_fires_one:
  assumes "armedOne due a k d" and "due \<le> t"
  shows "world (runTimers funcs t d) = funcs k a due (world d)"
    and "pendingTimers (runTimers funcs t d) = []"
proof -
  obtain i where h: "timeout d k = Some i" "pendingTimers d = [(i, due, k, a)]"
    using assms(1) by (auto simp: armedOne_def split: option.splits)
  let ?d1 = "later funcs k due a
     (d\<lparr>pendingTimers := filter (\<lambda>(j, due', k', a). j \<noteq> i) (pendingTimers d)\<rparr>)"
  have p1: "pendingTimers ?d1 = []" and w1: "world ?d1 = funcs k a due (world d)"
    using h by (simp_all add: later_def clearTimeout_def)
  have "runTimers funcs t d = runTimers funcs t ?d1"
    using assms(2) h by (subst runTimers.simps) (simp add: nextDue_single)
  also have "\<dots> = ?d1"
    by (rule runTimers_none) (simp add: p1 nextDue_def)
  finally have "runTimers funcs t d = ?d1" .
  with p1 w1 show "world (runTimers funcs t d) = funcs k a due (world d)"
    and "pendingTimers (runTimers funcs t d) = []"
    by simp_all
qed

lemma burst_armed_one:
  assumes "armedOne (t + 500) a k d" and "burst 500 (t # map fst es)"
    and "map snd (filter (\<lambda>(name, h). name = ''wheel'') (eventListeners (world d))) =
       [DebouncedZoom k]"
  shows "armedOne (last (t # map fst es) + 500) (last (a # map snd es)) k
           (wheelEvents funcs es d) \<and>
         world (wheelEvents funcs es d) = world d"
  using assms
proof (induction es arbitrary: t a d)
  case Nil
  then show ?case by simp
next
  case (Cons e es)
  obtain t' a' where e: "e = (t', a')" by (cases e)
  from Cons.prems(2) e have order: "t \<le> t'" "t' < t + 500"
    and rest: "burst 500 (t' # map fst es)"
    by simp_all
  have quiet: "runTimers funcs t' d = d"
    using Cons.prems(1) order(2) by (rule runTimers_early_one)
  let ?d' = "executedFunction k 500 t' a' d"
  have disp: "dispatchAt ''wheel'' t' a' d = ?d'"
    using Cons.prems(3) by (rule dispatchAt_wheel_one)
  have armed': "armedOne (t' + 500) a' k ?d'"
    using Cons.prems(1) by (rule next_event_one)
  have w: "world ?d' = world d"
    by (simp add: world_executedFunction)
  have wheel: "map snd (filter (\<lambda>(name, h). name = ''wheel'') (eventListeners (world ?d'))) =
       [DebouncedZoom k]"
    using Cons.prems(3) w by simp
  have "last (t # map fst (e # es)) = last (t' # map fst es)"
    and "last (a # map snd (e # es)) = last (a' # map snd es)"
    and "wheelEvents funcs (e # es) d = wheelEvents funcs es ?d'"
    by (simp_all add: e quiet disp)
  with Cons.IH [OF armed' rest wheel] w show ?case
    by simp
qed

lemma wheelEvents_burst_one:
  assumes ne: "es \<noteq> []" and b: "burst 500 (map fst es)"
    and wheel: "map snd (filter (\<lambda>(name, h). name = ''wheel'') (eventListeners w)) =
       [DebouncedZoom k]"
  shows "armedOne (fst (last es) + 500) (snd (last es)) k (wheelEvents funcs es (untimed w))"
    and "world (wheelEvents funcs es (untimed w)) = w"
proof -
  obtain t a es' where es: "es = (t, a) # es'"
    using ne by (cases es) auto
  have quiet: "runTimers funcs t (untimed w) = untimed w"
    by (rule runTimers_none) (simp add: untimed_def nextDue_def)
  let ?d1 = "executedFunction k 500 t a (untimed w)"
  have w0: "world (untimed w :: ('a, sys) timed) = w"
    by (simp add: untimed_def)
  have disp: "dispatchAt ''wheel'' t a (untimed w) = ?d1"
    using wheel by (intro dispatchAt_wheel_one) (simp add: w0)
  have a1: "armedOne (t + 500) a k ?d1"
    by (rule first_event_one)
  have w1: "world ?d1 = w"
    by (simp add: world_executedFunction w0)
  have b': "burst 500 (t # map fst es')"
    using b by (simp add: es)
  have "armedOne (last (t # map fst es') + 500) (last (a # map snd es')) k
           (wheelEvents funcs es' ?d1) \<and>
         world (wheelEvents funcs es' ?d1) = world ?d1"
    using a1 b' by (rule burst_armed_one) (simp add: w1 wheel)
  moreover have "last (t # map fst es') = fst (last es)"
    and "last (a # map snd es') = snd (last es)"
    by (simp_all add: es last_map)
  moreover have "wheelEvents funcs es (untimed w) = wheelEvents funcs es' ?d1"
    by (simp add: es quiet disp)
  ultimately show
    "armedOne (fst (last es) + 500) (snd (last es)) k (wheelEvents funcs es (untimed w))"
    and "world (wheelEvents funcs es (untimed w)) = w"
    using w1 by simp_all
qed

lemma one_init_wheel:
  "map snd (filter (\<lambda>(name, h). name = ''wheel'')
     (eventListeners (snd (init (loaded w p subscribers))))) = [DebouncedZoom 0]"
  by (simp add: init_fields registrations_def loaded_def)

lemma one_init_runs_once:
  assumes "es \<noteq> []" and "burst 500 (map fst es)"
  shows "world (runTimers funcs T
           (wheelEvents funcs es (untimed (snd (init (loaded w p subscribers)))))) =
         (if T < fst (last es) + 500 then snd (init (loaded w p subscribers))
          else funcs 0 (snd (last es)) (fst (last es) + 500)
                 (snd (init (loaded w p subscribers))))"
    and "map snd (pendingTimers
           (wheelEvents funcs es (untimed (snd (init (loaded w p subscribers)))))) =
         [(fst (last es) + 500, 0, snd (last es))]"
proof -
  let ?w = "snd (init (loaded w p subscribers))"
  let ?d = "wheelEvents funcs es (untimed ?w)"
  have a: "armedOne (fst (last es) + 500) (snd (last es)) 0 ?d" and wd: "world ?d = ?w"
    using assms one_init_wheel by (rule wheelEvents_burst_one)+
  show "map snd (pendingTimers ?d) = [(fst (last es) + 500, 0, snd (last es))]"
    using a by (auto simp: armedOne_def split: option.splits)
  show "world (runTimers funcs T ?d) =
         (if T < fst (last es) + 500 then ?w
          else funcs 0 (snd (last es)) (fst (last es) + 500) ?w)"
  proof (cases "T < fst (last es) + 500")
    case True
    with a have "runTimers funcs T ?d = ?d"
      by (rule runTimers_early_one)
    with True wd show ?thesis by simp
  next
    case False
    then have "fst (last es) + 500 \<le> T" by simp
    with a have "world (runTimers funcs T ?d) =
        funcs 0 (snd (last es)) (fst (last es) + 500) (world ?d)"
      by (rule runTimers_fires_one)
    with False wd show ?thesis by simp
  qed
qed

subsection \<open>After startup\<close>

text \<open>
  C5. One or more wheel events, each less than 500 ms after the one before, make the
  debounced zoom handler run exactly once, 500 ms after the last event, reading the
  device pixel ratio as it is then; every event cancels the invocation pending from the
  one before. After startup this holds of each wrapper, but not of the handler: the
  platform holds two wrappers for wheel events, one from each run of \<open>init\<close>, each
  with a timer variable of its own. An event cancels and sets again both timers, so a
  burst leaves two timers pending, both due 500 ms after the last event and with that
  event as argument. Nothing runs before that time; at that time the debounced function
  of wrapper 0 runs and then that of wrapper 1. Both are \<open>onZoomChange\<close>, which so
  runs twice: the first run reads the platform's zoom at that time, and the second,
  finding the zoom level as the first left it, changes nothing.
\<close>

theorem wheel_burst_runs_twice:
  assumes "es \<noteq> []" and "burst 500 (map fst es)"
  shows "map snd (filter (\<lambda>(name, h). name = ''wheel'')
       (eventListeners (started (loaded w p subscribers)))) =
     [DebouncedZoom 0, DebouncedZoom 1] \<and>
    world (wheelEvents funcs es (untimed (started (loaded w p subscribers)))) =
      started (loaded w p subscribers) \<and>
    map snd (pendingTimers (wheelEvents funcs es (untimed (started (loaded w p subscribers))))) =
      [(fst (last es) + 500, 0, snd (last es)), (fst (last es) + 500, 1, snd (last es))] \<and>
    (T < fst (last es) + 500 \<longrightarrow>
       runTimers funcs T (wheelEvents funcs es (untimed (started (loaded w p subscribers)))) =
         wheelEvents funcs es (untimed (started (loaded w p subscribers)))) \<and>
    (fst (last es) + 500 \<le> T \<longrightarrow>
       world (runTimers funcs T
          (wheelEvents funcs es (untimed (started (loaded w p subscribers))))) =
         funcs 1 (snd (last es)) (fst (last es) + 500)
           (funcs 0 (snd (last es)) (fst (last es) + 500) (started (loaded w p subscribers))) \<and>
       pendingTimers (runTimers funcs T
          (wheelEvents funcs es (untimed (started (loaded w p subscribers))))) = [] \<and>
       world (runTimers (zoomCheck platform) T
          (wheelEvents (zoomCheck platform) es (untimed (started (loaded w p subscribers))))) =
         zoomCheck platform 1 (snd (last es)) (fst (last es) + 500)
           (zoomCheck platform 0 (snd (last es)) (fst (last es) + 500)
              (started (loaded w p subscribers))) \<and>
       zoomLevel (viewportState (world (runTimers (zoomCheck platform) T
          (wheelEvents (zoomCheck platform) es (untimed (started (loaded w p subscribers))))))) =
         zoomPercent (platform (fst (last es) + 500))) \<and>
    zoomCheck platform 1 a t (zoomCheck platform 0 a t s) = zoomCheck platform 0 a t s"
proof -
  let ?w = "started (loaded w p subscribers)"
  let ?due = "fst (last es) + 500"
  let ?d = "wheelEvents funcs es (untimed ?w)"
  let ?z = "wheelEvents (zoomCheck platform) es (untimed ?w)"
  have wheel: "map snd (filter (\<lambda>(name, h). name = ''wheel'') (eventListeners ?w)) =
     [DebouncedZoom 0, DebouncedZoom 1]"
    by (rule started_wheel)
  have distinct: "(0 :: nat) \<noteq> 1"
    by simp
  have a: "armed ?due (snd (last es)) 0 1 ?d" and wd: "world ?d = ?w"
    using assms distinct wheel by (rule wheelEvents_burst)+
  have az: "armed ?due (snd (last es)) 0 1 ?z" and wz: "world ?z = ?w"
    using assms distinct wheel by (rule wheelEvents_burst)+
  have two: "map snd (pendingTimers ?d) =
      [(?due, 0, snd (last es)), (?due, 1, snd (last es))]"
    using a by (auto simp: armed_def split: option.splits)
  have early: "runTimers funcs T ?d = ?d" if "T < ?due"
    using a that by (rule runTimers_early)
  have fires: "world (runTimers funcs T ?d) =
        funcs 1 (snd (last es)) ?due (funcs 0 (snd (last es)) ?due ?w)"
      "pendingTimers (runTimers funcs T ?d) = []"
    if "?due \<le> T"
    using runTimers_fires [OF a distinct that, of funcs] wd by simp_all
  have zoom: "world (runTimers (zoomCheck platform) T ?z) =
        zoomCheck platform 1 (snd (last es)) ?due (zoomCheck platform 0 (snd (last es)) ?due ?w)"
    if "?due \<le> T"
    using runTimers_fires(1) [OF az distinct that, of "zoomCheck platform"] wz by simp
  have level: "zoomLevel (viewportState (world (runTimers (zoomCheck platform) T ?z))) =
        zoomPercent (platform ?due)"
    if "?due \<le> T"
    using zoom [OF that] by (simp add: zoomCheck_zoomLevel)
  have again: "zoomCheck platform 1 a t (zoomCheck platform 0 a t s) = zoomCheck platform 0 a t s"
    by (rule zoomCheck_twice)
  show ?thesis
    using wheel wd two early fires zoom level again by blast
qed

theorem wheel_burst_runs_twice_witness:
  "[(0, ''e1''), (100, ''e2''), (450, ''e3'')] \<noteq> [] \<and>
   burst 500 (map fst [(0, ''e1''), (100, ''e2''), (450, ''e3'')]) \<and>
   console (thePage (world (runTimers stamp 949
      (wheelEvents stamp [(0, ''e1''), (100, ''e2''), (450, ''e3'')]
         (untimed (started wideState)))))) =
     console (thePage (started wideState)) \<and>
   console (thePage (world (runTimers stamp 950
      (wheelEvents stamp [(0, ''e1''), (100, ''e2''), (450, ''e3'')]
         (untimed (started wideState)))))) =
     console (thePage (started wideState)) @
       [ConsoleLog ''wrapper 0: e3'', ConsoleLog ''wrapper 1: e3''] \<and>
   zoomLevel (viewportState (world (runTimers (zoomCheck zoomingPlatform) 950
      (wheelEvents (zoomCheck zoomingPlatform) [(0, ''e1''), (100, ''e2''), (450, ''e3'')]
         (untimed (started wideState)))))) = 150"
proof -
  let ?es = "[(0 :: nat, ''e1''), (100, ''e2''), (450, ''e3'')]"
  let ?d = "wheelEvents stamp ?es (untimed (started wideState))"
  let ?z = "wheelEvents (zoomCheck zoomingPlatform) ?es (untimed (started wideState))"
  have h: "?es \<noteq> []" "burst 500 (map fst ?es)"
    by simp_all
  have last: "fst (last ?es) + 500 = 950" "snd (last ?es) = ''e3''"
    by simp_all
  have wide: "loaded (sampleWindow 1000 800) dashboardPage [probe ''a''] = wideState"
    by (simp add: wideState_def)
  have num: "(949 :: nat) < 950" "(950 :: nat) \<le> 950"
    by simp_all
  have before: "world ?d = started wideState" "runTimers stamp 949 ?d = ?d"
    using wheel_burst_runs_twice [OF h, where funcs = stamp and T = 949
        and w = "sampleWindow 1000 800" and p = dashboardPage and subscribers = "[probe ''a'']"
        and platform = zoomingPlatform and a = "''e3''" and t = 950 and s = wideState]
      num
    unfolding last wide by blast+
  have after: "world (runTimers stamp 950 ?d) =
      stamp 1 ''e3'' 950 (stamp 0 ''e3'' 950 (started wideState))"
    and level: "zoomLevel (viewportState (world (runTimers (zoomCheck zoomingPlatform) 950 ?z))) =
      zoomPercent (zoomingPlatform 950)"
    using wheel_burst_runs_twice [OF h, where funcs = stamp and T = 950
        and w = "sampleWindow 1000 800" and p = dashboardPage and subscribers = "[probe ''a'']"
        and platform = zoomingPlatform and a = "''e3''" and t = 950 and s = wideState]
      num
    unfolding last wide by blast+
  have "console (thePage (world (runTimers stamp 949 ?d))) = console (thePage (started wideState))"
    by (simp only: before)
  moreover have "console (thePage (world (runTimers stamp 950 ?d))) =
      console (thePage (started wideState)) @
        [ConsoleLog ''wrapper 0: e3'', ConsoleLog ''wrapper 1: e3'']"
    by (simp only: after) (simp add: stamp_def in_page_def console_log_def modify_def)
  moreover have "zoomLevel (viewportState (world (runTimers (zoomCheck zoomingPlatform) 950 ?z))) = 150"
    by (simp only: level) (simp add: zoomingPlatform_def)
  ultimately show ?thesis
    using h by blast
qed

end
